theory Spec2Isabelle
  imports Complex_Main "HOL-Library.Sublist"
begin

section \<open>Roads, rails and trails: the containment-line processing script\<close>

text \<open>
  The script \<^verbatim>\<open>transportation_containmentline_processing.py\<close> is a sequence of
  ArcGIS geoprocessing calls over named feature classes, wrapped in two
  \<^verbatim>\<open>try/except\<close> phases, plus four small Python functions handed to
  \<^verbatim>\<open>CalculateField\<close>. The model below follows it line by line: the workspace is
  an explicit store from dataset names to feature lists, every tool call is a
  step on that store labelled with its source line, and an exception is a
  value carrying the state at the point of failure.

  The geoprocessing tools themselves are library code. They are modelled by
  their documented behaviour over an idealised geometry: a geometry is the set
  of elementary pieces of the map it covers (type \<open>'a\<close>), so that overlap is a
  shared piece, intersection, erasure and clipping are the set operations, and
  a polygon is the set of pieces inside it. Coordinates, tolerances and
  floating-point effects are outside this model; buffering and geodesic length
  are parameters of the run.
\<close>

subsection \<open>Features\<close>

text \<open>
  One row of a feature class. The record carries every attribute the script
  reads or writes; \<open>None\<close> is a null value. Text is ASCII text.
\<close>

record 'a feature =
  shape :: "'a set"
  attr_IncidentName :: "string option"
  permanent_identifier :: "string option"
  tnmfrc :: "int option"
  trailtype :: "string option"
  ohvover50inches :: "string option"
  LANES :: "string option"
  LineLength :: "real option"
  LaneWidth :: "string option"
  Width :: "real option"
  Source :: "string option"

definition blank :: "'a set \<Rightarrow> 'a feature" where
  "blank g = \<lparr>shape = g, attr_IncidentName = None, permanent_identifier = None,
     tnmfrc = None, trailtype = None, ohvover50inches = None, LANES = None,
     LineLength = None, LaneWidth = None, Width = None, Source = None\<rparr>"

definition shapes :: "'a feature list \<Rightarrow> 'a set" where
  "shapes fs = \<Union> (set (map shape fs))"

subsection \<open>The Python code blocks of CalculateField\<close>

text \<open>
  \<^verbatim>\<open>Reclass(tnmfrc)\<close>, lines 201-219. The result is written to the DOUBLE field
  Width; Python's \<^verbatim>\<open>None\<close> is stored as null.
\<close>

definition Reclass_tnmfrc :: "int option \<Rightarrow> real option" where
  "Reclass_tnmfrc v =
     (if v = Some 1 then Some 25
      else if v = Some 2 then Some 20
      else if v = Some 3 then Some 15
      else if v = Some 4 then Some 5
      else if v = Some 5 then Some 25
      else if v = Some 6 then Some 3
      else if v = Some 9 then Some 2
      else if v = None then None
      else Some 1000)"

text \<open>\<^verbatim>\<open>str.isdigit\<close> on an ASCII character.\<close>

definition isdigit :: "char \<Rightarrow> bool" where
  "isdigit c \<longleftrightarrow> c \<in> set ''0123456789''"

text \<open>\<^verbatim>\<open>str(lanes)\<close>: the text itself, or \<^verbatim>\<open>'None'\<close> for a null.\<close>

definition py_str :: "string option \<Rightarrow> string" where
  "py_str v = (case v of None \<Rightarrow> ''None'' | Some s \<Rightarrow> s)"

text \<open>
  \<^verbatim>\<open>rcls(lanes)\<close>, lines 224-229. The \<^verbatim>\<open>for\<close> loop returns in both branches
  of its body, so it never reaches a second character; an empty text falls
  off the end of the function, which is \<^verbatim>\<open>None\<close>.
\<close>

fun rcls_loop :: "string \<Rightarrow> string option" where
  "rcls_loop [] = None"
| "rcls_loop (char # rest) = (if isdigit char then Some [char] else None)"

definition rcls :: "string option \<Rightarrow> string option" where
  "rcls lanes = rcls_loop (py_str lanes)"

text \<open>\<^verbatim>\<open>Reclass(LaneWidth)\<close>, lines 235-249.\<close>

definition Reclass_LaneWidth :: "string option \<Rightarrow> real option" where
  "Reclass_LaneWidth v =
     (if v = Some ''1'' then Some 5
      else if v = Some ''2'' then Some 8
      else if v = Some ''3'' then Some 10
      else if v = Some ''4'' then Some 15
      else if v = Some ''5'' then Some 25
      else if v = None then Some 5
      else Some 1000)"

text \<open>\<^verbatim>\<open>Reclass(ohvover50inches)\<close>, lines 257-263.\<close>

definition Reclass_ohvover50inches :: "string option \<Rightarrow> real option" where
  "Reclass_ohvover50inches v =
     (if v = Some ''Y'' then Some 1.5
      else if v = None then Some 0.5
      else Some 0.5)"

text \<open>
  The first digit of a text wherever it stands, which is what the loop of
  \<open>rcls\<close> is written to look for. It is used only to state what \<open>rcls\<close> misses.
\<close>

definition first_digit_anywhere :: "string \<Rightarrow> string option" where
  "first_digit_anywhere s = map_option (\<lambda>c. [c]) (find isdigit s)"

subsection \<open>Where clauses\<close>

text \<open>
  The three SQL expressions the script hands to \<^verbatim>\<open>MakeFeatureLayer\<close>:
  \<^verbatim>\<open>tnmfrc IN (7, 8)\<close>, \<^verbatim>\<open>trailtype LIKE '%Water%'\<close> and
  \<^verbatim>\<open>LineLength < n\<close>. A comparison with a null is unknown in SQL, so a row
  with a null in the tested field is not selected.
\<close>

datatype where_clause =
    TnmfrcIn "int list"
  | TrailtypeLike string
  | LineLengthLess real

text \<open>SQL \<^verbatim>\<open>LIKE\<close>: \<^verbatim>\<open>%\<close> stands for any text, \<^verbatim>\<open>_\<close> for one character.\<close>

fun sql_like :: "string \<Rightarrow> string \<Rightarrow> bool" where
  "sql_like [] s = (s = [])"
| "sql_like (p # ps) [] = (p = CHR ''%'' \<and> sql_like ps [])"
| "sql_like (p # ps) (c # cs) =
     (if p = CHR ''%'' then sql_like ps (c # cs) \<or> sql_like (p # ps) cs
      else if p = CHR ''_'' then sql_like ps cs
      else p = c \<and> sql_like ps cs)"

definition selected :: "where_clause \<Rightarrow> 'a feature \<Rightarrow> bool" where
  "selected w f =
     (case w of
        TnmfrcIn codes \<Rightarrow> (case tnmfrc f of None \<Rightarrow> False | Some c \<Rightarrow> c \<in> set codes)
      | TrailtypeLike pat \<Rightarrow> (case trailtype f of None \<Rightarrow> False | Some t \<Rightarrow> sql_like pat t)
      | LineLengthLess n \<Rightarrow> (case LineLength f of None \<Rightarrow> False | Some l \<Rightarrow> l < n))"

subsection \<open>The state of a run\<close>

text \<open>
  A dataset is one of the five feature sets of the tool's parameters
  (\<^verbatim>\<open>arcpy.GetParameter(0..4)\<close>), a feature class of the scratch workspace
  \<^verbatim>\<open>interim.gdb\<close> (every bare name of the script, since
  \<^verbatim>\<open>arcpy.env.workspace\<close> is set to it), or a feature class of
  \<^verbatim>\<open>output.gdb\<close>. The three stores are taken to be disjoint.
\<close>

datatype dataset = UserParam nat | Workspace string | OutputGdb string

datatype severity = Info | Err

datatype error =
    ExecuteError nat string
  | RuntimeError nat string
  | NameError nat
  | AttributeError nat

text \<open>
  A feature layer is a named view of a dataset under a where clause; it holds
  no rows of its own. \<open>IncName\<close> is the Python variable of that name, \<open>None\<close>
  while it is unbound.
\<close>

record 'a state =
  datasets :: "dataset \<rightharpoonup> 'a feature list"
  layers :: "string \<rightharpoonup> dataset \<times> where_clause"
  messages :: "(severity \<times> string) list"
  stdout :: "string list"
  IncName :: "string option"

text \<open>
  What a run depends on besides the stored data: the two text parameters of
  the tool, and what lines 42-69 fix before the first phase, the timestamp
  taken at lines 44-45 and the path of the output geodatabase; further
  the geodesic buffer and length of the library, the text of a traceback
  entry, and which calls raise: \<open>faults env l = Some m\<close> says that the call at
  source line \<open>l\<close> raises with message \<open>m\<close>. The length threshold is the number
  its parameter text denotes in the SQL expression of line 173.
\<close>

record 'a env =
  USFS_Road_Buff :: string
  USFS_RoadLineLengthToDel :: real
  datetime :: string
  output_fgdb :: string
  buffer_region :: "string \<Rightarrow> 'a set \<Rightarrow> 'a set"
  length_geodesic :: "'a set \<Rightarrow> real"
  format_tb :: "nat \<Rightarrow> string"
  faults :: "nat \<Rightarrow> string option"

type_synonym 'a step = "'a state \<Rightarrow> (error \<times> 'a state) + 'a state"

text \<open>Statements run in order; the first exception ends the block.\<close>

fun run :: "'a step list \<Rightarrow> 'a step" where
  "run [] s = Inr s"
| "run (st # sts) s = (case st s of Inl e \<Rightarrow> Inl e | Inr s' \<Rightarrow> run sts s')"

definition stmt :: "('a state \<Rightarrow> 'a state) \<Rightarrow> 'a step" where
  "stmt f s = Inr (f s)"

definition AddMessage :: "string \<Rightarrow> 'a state \<Rightarrow> 'a state" where
  "AddMessage m s = s\<lparr>messages := messages s @ [(Info, m)]\<rparr>"

definition AddError :: "string \<Rightarrow> 'a state \<Rightarrow> 'a state" where
  "AddError m s = s\<lparr>messages := messages s @ [(Err, m)]\<rparr>"

definition print :: "string \<Rightarrow> 'a state \<Rightarrow> 'a state" where
  "print m s = s\<lparr>stdout := stdout s @ [m]\<rparr>"

definition put :: "dataset \<Rightarrow> 'a feature list \<Rightarrow> 'a state \<Rightarrow> 'a state" where
  "put d fs s = s\<lparr>datasets := (datasets s)(d \<mapsto> fs)\<rparr>"

text \<open>
  A geoprocessing call at a source line. It raises when the environment says
  so, or when its body has no result because a dataset or layer it reads does
  not exist; a call that raises leaves the state as it found it.
\<close>

definition gp_tool :: "'a env \<Rightarrow> nat \<Rightarrow> ('a state \<Rightarrow> 'a state option) \<Rightarrow> 'a step" where
  "gp_tool env line body s =
     (case faults env line of
        Some m \<Rightarrow> Inl (ExecuteError line m, s)
      | None \<Rightarrow>
          (case body s of
             None \<Rightarrow> Inl (ExecuteError line ''ERROR 000732: Dataset does not exist or is not supported'', s)
           | Some s' \<Rightarrow> Inr s'))"

subsection \<open>The geoprocessing tools\<close>

text \<open>
  \<^verbatim>\<open>PairwiseBuffer\<close> with dissolve option \<^verbatim>\<open>ALL\<close>: one feature, the buffer of
  everything in the input.
\<close>

definition buffer_all :: "'a env \<Rightarrow> string \<Rightarrow> 'a feature list \<Rightarrow> 'a feature list" where
  "buffer_all env distance fs =
     (case fs of [] \<Rightarrow> [] | _ # _ \<Rightarrow> [blank (buffer_region env distance (shapes fs))])"

definition PairwiseBuffer :: "'a env \<Rightarrow> nat \<Rightarrow> dataset \<Rightarrow> dataset \<Rightarrow> string \<Rightarrow> 'a step" where
  "PairwiseBuffer env line inp out distance =
     gp_tool env line (\<lambda>s.
       case datasets s inp of
         None \<Rightarrow> None
       | Some fs \<Rightarrow> Some (put out (buffer_all env distance fs) s))"

text \<open>
  \<^verbatim>\<open>PairwiseClip\<close>: the part of every input feature inside the clip features,
  attributes kept; a feature with nothing inside is not written.
\<close>

definition clip_features :: "'a set \<Rightarrow> 'a feature list \<Rightarrow> 'a feature list" where
  "clip_features region fs =
     map (\<lambda>f. f\<lparr>shape := shape f \<inter> region\<rparr>) (filter (\<lambda>f. shape f \<inter> region \<noteq> {}) fs)"

definition PairwiseClip :: "'a env \<Rightarrow> nat \<Rightarrow> dataset \<Rightarrow> dataset \<Rightarrow> dataset \<Rightarrow> 'a step" where
  "PairwiseClip env line inp clip out =
     gp_tool env line (\<lambda>s.
       case datasets s inp of
         None \<Rightarrow> None
       | Some fs \<Rightarrow>
           (case datasets s clip of
              None \<Rightarrow> None
            | Some cs \<Rightarrow> Some (put out (clip_features (shapes cs) fs) s)))"

text \<open>
  \<^verbatim>\<open>PairwiseIntersect\<close> of two inputs with \<^verbatim>\<open>ONLY_FID\<close>: one feature for
  every pair of a feature of the first and a feature of the second that
  overlap, holding what they share and no attribute of either.
\<close>

definition intersect_features :: "'a feature list \<Rightarrow> 'a feature list \<Rightarrow> 'a feature list" where
  "intersect_features as bs =
     concat (map (\<lambda>a. map (\<lambda>b. blank (shape a \<inter> shape b))
                        (filter (\<lambda>b. shape a \<inter> shape b \<noteq> {}) bs)) as)"

definition PairwiseIntersect :: "'a env \<Rightarrow> nat \<Rightarrow> dataset \<Rightarrow> dataset \<Rightarrow> dataset \<Rightarrow> 'a step" where
  "PairwiseIntersect env line in1 in2 out =
     gp_tool env line (\<lambda>s.
       case datasets s in1 of
         None \<Rightarrow> None
       | Some as \<Rightarrow>
           (case datasets s in2 of
              None \<Rightarrow> None
            | Some bs \<Rightarrow> Some (put out (intersect_features as bs) s)))"

text \<open>
  \<^verbatim>\<open>PairwiseErase\<close>: every input feature less everything the erase features
  cover, attributes kept; a feature erased whole is not written.
\<close>

definition erase_features :: "'a set \<Rightarrow> 'a feature list \<Rightarrow> 'a feature list" where
  "erase_features region fs =
     map (\<lambda>f. f\<lparr>shape := shape f - region\<rparr>) (filter (\<lambda>f. shape f - region \<noteq> {}) fs)"

definition PairwiseErase :: "'a env \<Rightarrow> nat \<Rightarrow> dataset \<Rightarrow> dataset \<Rightarrow> dataset \<Rightarrow> 'a step" where
  "PairwiseErase env line inp er out =
     gp_tool env line (\<lambda>s.
       case datasets s inp of
         None \<Rightarrow> None
       | Some fs \<Rightarrow>
           (case datasets s er of
              None \<Rightarrow> None
            | Some es \<Rightarrow> Some (put out (erase_features (shapes es) fs) s)))"

text \<open>
  \<^verbatim>\<open>Merge\<close>: the rows of the inputs one after the other, each input's rows
  passed through the field mapping that applies to it.
\<close>

fun gather :: "'a state \<Rightarrow> (dataset \<times> ('a feature \<Rightarrow> 'a feature)) list \<Rightarrow> 'a feature list option" where
  "gather s [] = Some []"
| "gather s ((d, fm) # rest) =
     (case datasets s d of
        None \<Rightarrow> None
      | Some fs \<Rightarrow>
          (case gather s rest of
             None \<Rightarrow> None
           | Some gs \<Rightarrow> Some (map fm fs @ gs)))"

definition Merge :: "'a env \<Rightarrow> nat \<Rightarrow> (dataset \<times> ('a feature \<Rightarrow> 'a feature)) list \<Rightarrow> dataset \<Rightarrow> 'a step" where
  "Merge env line inputs out =
     gp_tool env line (\<lambda>s.
       case gather s inputs of
         None \<Rightarrow> None
       | Some fs \<Rightarrow> Some (put out fs s))"

text \<open>
  Tools that edit a dataset in place: \<^verbatim>\<open>RepairGeometry\<close> with
  \<^verbatim>\<open>DELETE_NULL\<close> (drops the rows with no geometry; an idealised geometry has
  nothing else to repair), \<^verbatim>\<open>AddField\<close>, \<^verbatim>\<open>CalculateField\<close> and
  \<^verbatim>\<open>CalculateGeometryAttributes\<close> (each a row-wise update).
\<close>

definition edit_rows :: "'a env \<Rightarrow> nat \<Rightarrow> dataset \<Rightarrow> ('a feature list \<Rightarrow> 'a feature list) \<Rightarrow> 'a step" where
  "edit_rows env line d f =
     gp_tool env line (\<lambda>s.
       case datasets s d of
         None \<Rightarrow> None
       | Some fs \<Rightarrow> Some (put d (f fs) s))"

definition RepairGeometry :: "'a env \<Rightarrow> nat \<Rightarrow> dataset \<Rightarrow> 'a step" where
  "RepairGeometry env line d = edit_rows env line d (filter (\<lambda>f. shape f \<noteq> {}))"

definition AddField :: "'a env \<Rightarrow> nat \<Rightarrow> dataset \<Rightarrow> ('a feature \<Rightarrow> 'a feature) \<Rightarrow> 'a step" where
  "AddField env line d null_field = edit_rows env line d (map null_field)"

definition CalculateField :: "'a env \<Rightarrow> nat \<Rightarrow> dataset \<Rightarrow> ('a feature \<Rightarrow> 'a feature) \<Rightarrow> 'a step" where
  "CalculateField env line d calc = edit_rows env line d (map calc)"

definition CalculateGeometryAttributes :: "'a env \<Rightarrow> nat \<Rightarrow> dataset \<Rightarrow> 'a step" where
  "CalculateGeometryAttributes env line d =
     edit_rows env line d (map (\<lambda>f. f\<lparr>LineLength := Some (length_geodesic env (shape f))\<rparr>))"

text \<open>
  \<^verbatim>\<open>MakeFeatureLayer\<close> names a view of a dataset; \<^verbatim>\<open>DeleteFeatures\<close> on a
  layer deletes the rows the layer selects from the dataset the layer views.
\<close>

definition MakeFeatureLayer :: "'a env \<Rightarrow> nat \<Rightarrow> dataset \<Rightarrow> string \<Rightarrow> where_clause \<Rightarrow> 'a step" where
  "MakeFeatureLayer env line d name w =
     gp_tool env line (\<lambda>s.
       case datasets s d of
         None \<Rightarrow> None
       | Some fs \<Rightarrow> Some (s\<lparr>layers := (layers s)(name \<mapsto> (d, w))\<rparr>))"

definition DeleteFeatures :: "'a env \<Rightarrow> nat \<Rightarrow> string \<Rightarrow> 'a step" where
  "DeleteFeatures env line name =
     gp_tool env line (\<lambda>s.
       case layers s name of
         None \<Rightarrow> None
       | Some (d, w) \<Rightarrow>
           (case datasets s d of
              None \<Rightarrow> None
            | Some fs \<Rightarrow> Some (put d (filter (\<lambda>f. \<not> selected w f) fs) s)))"

text \<open>
  \<^verbatim>\<open>PairwiseDissolve\<close> with \<^verbatim>\<open>MULTI_PART\<close>: one feature for every distinct
  value of the dissolve fields, holding the union of the geometries that carry
  that value and no other attribute. \<open>key\<close> reads the dissolve fields of a row
  and \<open>with_key\<close> writes them.
\<close>

definition dissolve_features ::
  "('a feature \<Rightarrow> 'k) \<Rightarrow> ('k \<Rightarrow> 'a feature \<Rightarrow> 'a feature) \<Rightarrow> 'a feature list \<Rightarrow> 'a feature list" where
  "dissolve_features key with_key fs =
     map (\<lambda>k. with_key k (blank (shapes (filter (\<lambda>f. key f = k) fs)))) (remdups (map key fs))"

definition PairwiseDissolve ::
  "'a env \<Rightarrow> nat \<Rightarrow> dataset \<Rightarrow> dataset \<Rightarrow> ('a feature \<Rightarrow> 'k) \<Rightarrow> ('k \<Rightarrow> 'a feature \<Rightarrow> 'a feature) \<Rightarrow> 'a step" where
  "PairwiseDissolve env line inp out key with_key =
     gp_tool env line (\<lambda>s.
       case datasets s inp of
         None \<Rightarrow> None
       | Some fs \<Rightarrow> Some (put out (dissolve_features key with_key fs) s))"

text \<open>
  The clean-up loop of lines 160-163 (and 178-181, 187-190, 277-280, 289-292):
  \<^verbatim>\<open>arcpy.Exists\<close>, then \<^verbatim>\<open>arcpy.Delete_management\<close>, over a list of names
  of the scratch workspace. Both are taken to succeed.
\<close>

definition Delete_if_Exists :: "string \<Rightarrow> 'a state \<Rightarrow> 'a state" where
  "Delete_if_Exists fc s =
     (case datasets s (Workspace fc) of
        None \<Rightarrow> s
      | Some fs \<Rightarrow> s\<lparr>datasets := (datasets s)(Workspace fc := None)\<rparr>)"

definition cleanup :: "string list \<Rightarrow> 'a state \<Rightarrow> 'a state" where
  "cleanup fc_Delete s = fold Delete_if_Exists fc_Delete s"

subsection \<open>The script, lines 87-192: preprocessing\<close>

text \<open>
  Lines 90-98. The cursor loop takes the first row and breaks. With no row the
  variable stays unbound and line 95 raises \<^verbatim>\<open>NameError\<close>; with a null name
  line 95 raises \<^verbatim>\<open>AttributeError\<close>. \<^verbatim>\<open>replace(" ","")\<close> drops every space.
  When the perimeter does not exist the script only adds an error message and
  goes on.
\<close>

definition get_IncName :: "'a env \<Rightarrow> 'a step" where
  "get_IncName env s =
     (case datasets s (UserParam 0) of
        None \<Rightarrow> Inr (AddError ''Input perimeter not found'' s)
      | Some cursor \<Rightarrow>
          (case faults env 91 of
             Some m \<Rightarrow> Inl (RuntimeError 91 m, s)
           | None \<Rightarrow>
               (case cursor of
                  [] \<Rightarrow> Inl (NameError 95, s)
                | row # _ \<Rightarrow>
                    (case attr_IncidentName row of
                       None \<Rightarrow> Inl (AttributeError 95, s)
                     | Some name \<Rightarrow>
                         Inr (AddMessage (''Incident named: '' @ filter (\<lambda>c. c \<noteq> CHR '' '') name)
                               (s\<lparr>IncName := Some (filter (\<lambda>c. c \<noteq> CHR '' '') name)\<rparr>))))))"

text \<open>Lines 110-114: delete transit features based on attribution.\<close>

definition delete_by_attribution :: "'a env \<Rightarrow> 'a step list" where
  "delete_by_attribution env =
     [MakeFeatureLayer env 110 (UserParam 3) ''usgs_trans_road_tnl_wtr'' (TnmfrcIn [7, 8]),
      DeleteFeatures env 111 ''usgs_trans_road_tnl_wtr'',
      MakeFeatureLayer env 113 (UserParam 2) ''usgs_trans_trail_water'' (TrailtypeLike ''%Water%''),
      DeleteFeatures env 114 ''usgs_trans_trail_water'']"

text \<open>Lines 118-121: clip all transportation data to the area of interest.\<close>

definition clip_to_AOI :: "'a env \<Rightarrow> 'a step list" where
  "clip_to_AOI env =
     [PairwiseClip env 118 (UserParam 1) (Workspace ''Perims_10kmBuff'') (Workspace ''AOIClp_RailFeature''),
      PairwiseClip env 119 (UserParam 2) (Workspace ''Perims_10kmBuff'') (Workspace ''AOIClp_TrailSegment''),
      PairwiseClip env 120 (UserParam 3) (Workspace ''Perims_10kmBuff'') (Workspace ''AOIClp_RoadSegment''),
      PairwiseClip env 121 (UserParam 4) (Workspace ''Perims_10kmBuff'') (Workspace ''AOI_Clp_RoadCore_FS'')]"

text \<open>
  Lines 125-135: identify and delete exact duplicates. The field mapping of
  the merge at line 130 keeps one field, \<^verbatim>\<open>permanent_identifier\<close>, and reads it
  from the road segments only.
\<close>

definition delete_exact_duplicates :: "'a env \<Rightarrow> 'a step list" where
  "delete_exact_duplicates env =
     [PairwiseIntersect env 125 (Workspace ''AOIClp_RoadSegment'') (Workspace ''AOIClp_TrailSegment'')
        (Workspace ''USGS_Trails_Roads_Intersect''),
      PairwiseErase env 127 (Workspace ''AOIClp_TrailSegment'') (Workspace ''USGS_Trails_Roads_Intersect'')
        (Workspace ''AOI_Clp_Trails_RoadsErased''),
      Merge env 130
        [(Workspace ''AOIClp_RoadSegment'',
            \<lambda>f. (blank (shape f))\<lparr>permanent_identifier := permanent_identifier f\<rparr>),
         (Workspace ''AOI_Clp_Trails_RoadsErased'', \<lambda>f. blank (shape f))]
        (Workspace ''USGS_TrailsRoads_Mrg''),
      PairwiseIntersect env 133 (Workspace ''USGS_TrailsRoads_Mrg'') (Workspace ''AOI_Clp_RoadCore_FS'')
        (Workspace ''USGS_USFS_TransInt''),
      PairwiseErase env 135 (Workspace ''AOI_Clp_RoadCore_FS'') (Workspace ''USGS_USFS_TransInt'')
        (Workspace ''USFS_Roads_USGS_Erased'')]"

text \<open>Lines 139-140: repair geometry on both processed feature classes.\<close>

definition repair_geometry :: "'a env \<Rightarrow> 'a step list" where
  "repair_geometry env =
     [RepairGeometry env 139 (Workspace ''AOI_Clp_Trails_RoadsErased''),
      RepairGeometry env 140 (Workspace ''USFS_Roads_USGS_Erased'')]"

text \<open>
  The script binds \<^verbatim>\<open>fc_Delete\<close> five times: at lines 159, 177 and 276 inside
  the \<^verbatim>\<open>try\<close> bodies, at lines 186 and 288 inside the handlers.
\<close>

definition fc_Delete_line159 :: "string list" where
  "fc_Delete_line159 =
     [''Perims_10kmBuff'', ''USGS_Trails_Roads_Intersect'', ''USGS_TrailsRoads_Mrg'',
      ''AOIClp_TrailSegment'', ''USGS_USFS_TransInt'']"

definition fc_Delete_line177 :: "string list" where
  "fc_Delete_line177 =
     [''Perims_10kmBuff'', ''USGS_Trails_Roads_Intersect'', ''USGS_TrailsRoads_Mrg'', ''USGS_AllMrg'',
      ''USGS_AllMrg_Buffer'', ''AOI_Clp_RoadCore_FS'', ''AOIClp_TrailSegment'', ''USGS_USFS_TransInt'',
      ''USFS_Roads_USGS_Erased'']"

definition fc_Delete_line186 :: "string list" where
  "fc_Delete_line186 =
     [''Perims_10kmBuff'', ''USGS_Trails_Roads_Intersect'', ''USGS_TrailsRoads_Mrg'', ''USGS_AllMrg'',
      ''USGS_AllMrg_Buffer'', ''AOI_Clp_RoadCore_FS'', ''AOIClp_TrailSegment'', ''USGS_USFS_TransInt'',
      ''USFS_Roads_USGS_Erased'', ''AOI_Clp_Trails_RoadsErased'', ''AOIClp_RailFeature'',
      ''AOIClp_RoadSegment'', ''USFS_Roads_USGS_EraseBuff'']"

definition fc_Delete_line276 :: "string list" where
  "fc_Delete_line276 =
     [''AOI_Clp_Trails_Diss'', ''AOI_Clp_Trails_RoadsErased'', ''AOIClp_Rail_Diss'', ''AOIClp_RailFeature'',
      ''AOIClp_RoadSegment'', ''AOIClp_USGS_Road_TNMFRC_Diss'', ''USFS_Roads_Diss_ALL'',
      ''USFS_Roads_USGS_EraseBuff'']"

definition fc_Delete_line288 :: "string list" where
  "fc_Delete_line288 =
     [''AOI_Clp_Trails_Diss'', ''AOI_Clp_Trails_RoadsErased'', ''AOIClp_Rail_Diss'', ''AOIClp_RailFeature'',
      ''AOIClp_RoadSegment'', ''AOIClp_USGS_Road_TNMFRC_Diss'', ''trans_usgs_usfs_containment'',
      ''USFS_Roads_Diss_ALL'', ''USFS_Roads_USGS_EraseBuff'']"

text \<open>
  Lines 153-168: merge all survey data, buffer it, clean up, and erase the
  buffer from the agency roads.
\<close>

definition remove_similar_geometry :: "'a env \<Rightarrow> 'a step list" where
  "remove_similar_geometry env =
     [stmt (AddMessage (''Removing USFS roads that have similar geometry in USGS data using a ''
              @ USFS_Road_Buff env @ '' meter buffer'')),
      Merge env 155
        [(Workspace ''AOI_Clp_Trails_RoadsErased'', \<lambda>f. f),
         (Workspace ''AOIClp_RoadSegment'', \<lambda>f. f),
         (Workspace ''AOIClp_RailFeature'', \<lambda>f. f)]
        (Workspace ''USGS_AllMrg''),
      PairwiseBuffer env 156 (Workspace ''USGS_AllMrg'') (Workspace ''USGS_AllMrg_Buffer'')
        (USFS_Road_Buff env @ '' Meters''),
      stmt (cleanup fc_Delete_line159),
      PairwiseErase env 168 (Workspace ''USFS_Roads_USGS_Erased'') (Workspace ''USGS_AllMrg_Buffer'')
        (Workspace ''USFS_Roads_USGS_EraseBuff'')]"

text \<open>Lines 171-174: delete the line segments shorter than the threshold.\<close>

definition delete_small_segments :: "'a env \<Rightarrow> 'a step list" where
  "delete_small_segments env =
     [AddField env 171 (Workspace ''USFS_Roads_USGS_EraseBuff'') (\<lambda>f. f\<lparr>LineLength := None\<rparr>),
      CalculateGeometryAttributes env 172 (Workspace ''USFS_Roads_USGS_EraseBuff''),
      MakeFeatureLayer env 173 (Workspace ''USFS_Roads_USGS_EraseBuff'')
        ''USFS_Roads_USGS_EraseBuff_SmallLinesToDelete'' (LineLengthLess (USFS_RoadLineLengthToDel env)),
      DeleteFeatures env 174 ''USFS_Roads_USGS_EraseBuff_SmallLinesToDelete'']"

text \<open>The body of the first \<^verbatim>\<open>try\<close>, lines 88-181.\<close>

definition preprocessing :: "'a env \<Rightarrow> 'a step list" where
  "preprocessing env =
     [get_IncName env,
      stmt (AddMessage ''Buffering Perimeters to ID AOI''),
      PairwiseBuffer env 104 (UserParam 0) (Workspace ''Perims_10kmBuff'') ''1 Kilometers'']
     @ delete_by_attribution env
     @ [stmt (AddMessage ''Clipping Transportation layers to AOI'')]
     @ clip_to_AOI env
     @ [stmt (AddMessage ''Identifying and deleting exact duplicates'')]
     @ delete_exact_duplicates env
     @ [stmt (AddMessage ''Repairing geometry'')]
     @ repair_geometry env
     @ remove_similar_geometry env
     @ delete_small_segments env
     @ [stmt (cleanup fc_Delete_line177)]"

subsection \<open>The script, lines 196-294: width attribution and merge\<close>

text \<open>Lines 198-249: widths of the survey roads and of the agency roads.\<close>

definition attribute_road_width :: "'a env \<Rightarrow> 'a step list" where
  "attribute_road_width env =
     [PairwiseDissolve env 198 (Workspace ''AOIClp_RoadSegment'') (Workspace ''AOIClp_USGS_Road_TNMFRC_Diss'')
        tnmfrc (\<lambda>k f. f\<lparr>tnmfrc := k\<rparr>),
      CalculateField env 200 (Workspace ''AOIClp_USGS_Road_TNMFRC_Diss'')
        (\<lambda>f. f\<lparr>Width := Reclass_tnmfrc (tnmfrc f)\<rparr>),
      CalculateField env 223 (Workspace ''USFS_Roads_USGS_EraseBuff'')
        (\<lambda>f. f\<lparr>LaneWidth := rcls (LANES f)\<rparr>),
      PairwiseDissolve env 231 (Workspace ''USFS_Roads_USGS_EraseBuff'') (Workspace ''USFS_Roads_Diss_ALL'')
        LaneWidth (\<lambda>k f. f\<lparr>LaneWidth := k\<rparr>),
      CalculateField env 235 (Workspace ''USFS_Roads_Diss_ALL'')
        (\<lambda>f. f\<lparr>Width := Reclass_LaneWidth (LaneWidth f)\<rparr>)]"

text \<open>
  Lines 251-265: widths of the rails (the constant 8) and of the trails. The
  call of line 257 names the field type \<^verbatim>\<open>TEXT\<close>, which has no effect: the
  field Width exists already, added as \<^verbatim>\<open>DOUBLE\<close> at line 255.
\<close>

definition attribute_rail_trail_width :: "'a env \<Rightarrow> 'a step list" where
  "attribute_rail_trail_width env =
     [CalculateField env 251 (Workspace ''AOIClp_RailFeature'') (\<lambda>f. f\<lparr>Width := Some 8\<rparr>),
      PairwiseDissolve env 252 (Workspace ''AOIClp_RailFeature'') (Workspace ''AOIClp_Rail_Diss'')
        Width (\<lambda>k f. f\<lparr>Width := k\<rparr>),
      AddField env 255 (Workspace ''AOI_Clp_Trails_RoadsErased'') (\<lambda>f. f\<lparr>Width := None\<rparr>),
      CalculateField env 257 (Workspace ''AOI_Clp_Trails_RoadsErased'')
        (\<lambda>f. f\<lparr>Width := Reclass_ohvover50inches (ohvover50inches f)\<rparr>),
      PairwiseDissolve env 265 (Workspace ''AOI_Clp_Trails_RoadsErased'') (Workspace ''AOI_Clp_Trails_Diss'')
        Width (\<lambda>k f. f\<lparr>Width := k\<rparr>)]"

text \<open>Lines 267-270: the field that tracks the data source.\<close>

definition attribute_source :: "'a env \<Rightarrow> 'a step list" where
  "attribute_source env =
     [CalculateField env 267 (Workspace ''AOIClp_Rail_Diss'') (\<lambda>f. f\<lparr>Source := Some ''USGS_Rail''\<rparr>),
      CalculateField env 268 (Workspace ''AOI_Clp_Trails_Diss'') (\<lambda>f. f\<lparr>Source := Some ''USGS_Trail''\<rparr>),
      CalculateField env 269 (Workspace ''AOIClp_USGS_Road_TNMFRC_Diss'') (\<lambda>f. f\<lparr>Source := Some ''USGS_Road''\<rparr>),
      CalculateField env 270 (Workspace ''USFS_Roads_Diss_ALL'') (\<lambda>f. f\<lparr>Source := Some ''USFS_Road''\<rparr>)]"

text \<open>Line 272: merge the four collections, keeping the fields Width and Source.\<close>

definition merge_containment :: "'a env \<Rightarrow> 'a step" where
  "merge_containment env =
      Merge env 272
        [(Workspace ''USFS_Roads_Diss_ALL'', \<lambda>f. (blank (shape f))\<lparr>Width := Width f, Source := Source f\<rparr>),
         (Workspace ''AOIClp_USGS_Road_TNMFRC_Diss'', \<lambda>f. (blank (shape f))\<lparr>Width := Width f, Source := Source f\<rparr>),
         (Workspace ''AOI_Clp_Trails_Diss'', \<lambda>f. (blank (shape f))\<lparr>Width := Width f, Source := Source f\<rparr>),
         (Workspace ''AOIClp_Rail_Diss'', \<lambda>f. (blank (shape f))\<lparr>Width := Width f, Source := Source f\<rparr>)]
        (Workspace ''trans_usgs_usfs_containment'')"

text \<open>
  Line 273: the name of the output feature class, and the dissolve on
  \<^verbatim>\<open>Source;Width\<close> that writes it. Evaluating the name raises \<^verbatim>\<open>NameError\<close>
  while \<^verbatim>\<open>IncName\<close> is unbound.
\<close>

definition output_name :: "'a env \<Rightarrow> string \<Rightarrow> string" where
  "output_name env inc = ''transprtn_cntmnt_'' @ inc @ ''_'' @ datetime env"

definition dissolve_to_output :: "'a env \<Rightarrow> 'a step" where
  "dissolve_to_output env s =
     (case IncName s of
        None \<Rightarrow> Inl (NameError 273, s)
      | Some inc \<Rightarrow>
          PairwiseDissolve env 273 (Workspace ''trans_usgs_usfs_containment'')
            (OutputGdb (output_name env inc))
            (\<lambda>f. (Source f, Width f)) (\<lambda>k f. f\<lparr>Source := fst k, Width := snd k\<rparr>) s)"

text \<open>
  Lines 276-282: the clean-up after a successful run, and the last message
  (which names \<^verbatim>\<open>trans_usgs_usfs_containment_\<close> and the timestamp under the
  output geodatabase, not the name the output was written under).
\<close>

definition finish :: "'a env \<Rightarrow> 'a step list" where
  "finish env =
     [stmt (cleanup fc_Delete_line276),
      stmt (AddMessage (''Script Finished Running, Output located here: ''
              @ output_fgdb env @ ''/'' @ ''trans_usgs_usfs_containment_'' @ datetime env))]"

text \<open>The body of the second \<^verbatim>\<open>try\<close>, lines 197-282.\<close>

definition width_attribution :: "'a env \<Rightarrow> 'a step list" where
  "width_attribution env =
     attribute_road_width env
     @ attribute_rail_trail_width env
     @ attribute_source env
     @ [merge_containment env, dissolve_to_output env]
     @ finish env"

subsection \<open>Error reporting and the two phases\<close>

definition line_of :: "error \<Rightarrow> nat" where
  "line_of e = (case e of ExecuteError l m \<Rightarrow> l | RuntimeError l m \<Rightarrow> l | NameError l \<Rightarrow> l | AttributeError l \<Rightarrow> l)"

text \<open>\<^verbatim>\<open>str(sys.exc_info()[1])\<close>.\<close>

definition str_error :: "error \<Rightarrow> string" where
  "str_error e =
     (case e of
        ExecuteError l m \<Rightarrow> m
      | RuntimeError l m \<Rightarrow> m
      | NameError l \<Rightarrow> ''name '' @ [CHR 0x27] @ ''IncName'' @ [CHR 0x27] @ '' is not defined''
      | AttributeError l \<Rightarrow>
          [CHR 0x27] @ ''NoneType'' @ [CHR 0x27] @ '' object has no attribute ''
            @ [CHR 0x27] @ ''replace'' @ [CHR 0x27])"

text \<open>\<^verbatim>\<open>arcpy.GetMessages(2)\<close>: the error messages of the last tool that ran.\<close>

definition GetMessages2 :: "error \<Rightarrow> string" where
  "GetMessages2 e = (case e of ExecuteError l m \<Rightarrow> m | _ \<Rightarrow> [])"

text \<open>
  \<^verbatim>\<open>report_error()\<close>, lines 73-84, with its two message texts. The traceback
  entry is that of the line that raised.
\<close>

definition pymsg :: "'a env \<Rightarrow> error \<Rightarrow> string" where
  "pymsg env e =
     ''PYTHON ERRORS:'' @ [CHR 0x0A] @ ''Traceback info:'' @ [CHR 0x0A] @ format_tb env (line_of e)
       @ [CHR 0x0A] @ ''Error Info:'' @ [CHR 0x0A] @ str_error e"

definition msgs :: "error \<Rightarrow> string" where
  "msgs e = ''ArcPy ERRORS:'' @ [CHR 0x0A] @ GetMessages2 e @ [CHR 0x0A]"

definition report_error :: "'a env \<Rightarrow> error \<Rightarrow> 'a state \<Rightarrow> 'a state" where
  "report_error env e s =
     print (msgs e) (print (pymsg env e) (AddMessage (msgs e) (AddMessage (pymsg env e) s)))"

datatype outcome = Finished | SystemExit

text \<open>
  A phase: the \<^verbatim>\<open>try\<close> body, and on any exception the handler, which adds an
  error message, prints it, deletes the names of its list, calls
  \<^verbatim>\<open>report_error()\<close> and ends the script with \<^verbatim>\<open>sys.exit()\<close>.
\<close>

definition handler :: "'a env \<Rightarrow> string \<Rightarrow> string list \<Rightarrow> error \<Rightarrow> 'a state \<Rightarrow> 'a state" where
  "handler env msg fc_Delete e s = report_error env e (cleanup fc_Delete (print msg (AddError msg s)))"

definition main :: "'a env \<Rightarrow> 'a state \<Rightarrow> outcome \<times> 'a state" where
  "main env s =
     (case run (preprocessing env) s of
        Inl (e, s1) \<Rightarrow>
          (SystemExit, handler env ''Error Preprocessing. Exiting.'' fc_Delete_line186 e s1)
      | Inr s1 \<Rightarrow>
          (case run (width_attribution env) s1 of
             Inl (e, s2) \<Rightarrow>
               (SystemExit, handler env ''Error Attributing Width. Exiting.'' fc_Delete_line288 e s2)
           | Inr s2 \<Rightarrow> (Finished, s2)))"

subsection \<open>What a block may write, and which calls it makes\<close>

text \<open>
  Two properties of a block of statements, used to reason about a whole
  phase without running it: \<open>writes_within N\<close> says that the block, whether it
  ends normally or raises, leaves \<^verbatim>\<open>IncName\<close> and every dataset outside \<open>N\<close>
  as they were; \<open>fault_free env ls\<close> says that the block can only end normally
  when none of the calls at the lines \<open>ls\<close> raises.
\<close>

definition writes_within :: "dataset set \<Rightarrow> 'a step list \<Rightarrow> bool" where
  "writes_within N steps \<longleftrightarrow>
     (\<forall>s r. (run steps s = Inr r \<or> (\<exists>e. run steps s = Inl (e, r))) \<longrightarrow>
        IncName r = IncName s \<and> (\<forall>d. d \<notin> N \<longrightarrow> datasets r d = datasets s d))"




subsection \<open>A small run\<close>

text \<open>
  Concrete data on which the theorems below are exercised. Pieces of the map
  are numbered; the perimeter of the incident ``Test Fire'' covers pieces 0 to
  7. There is one rail, a land trail that shares piece 1 with a road, a water
  trail, a secondary road and a ferry route, an agency road that shares piece
  1 with the survey road, and a second agency road that shares piece 2 with
  the land trail. Buffering adds nothing and a piece is 60 metres long.
\<close>

definition example_env :: "nat env" where
  "example_env =
     \<lparr>USFS_Road_Buff = ''50'', USFS_RoadLineLengthToDel = 100, datetime = ''20240308_1200'',
      output_fgdb = ''output.gdb'', buffer_region = (\<lambda>distance g. g),
      length_geodesic = (\<lambda>g. 60 * real (card g)), format_tb = (\<lambda>l. ''File script.py''),
      faults = (\<lambda>l. None)\<rparr>"

definition example_perimeter :: "nat feature" where
  "example_perimeter = (blank {0, 1, 2, 3, 4, 5, 6, 7})\<lparr>attr_IncidentName := Some ''Test Fire''\<rparr>"

definition example_rail :: "nat feature" where
  "example_rail = blank {0}"

definition example_trail :: "nat feature" where
  "example_trail = (blank {1, 2})\<lparr>trailtype := Some ''Terra Trail'', ohvover50inches := Some ''Y''\<rparr>"

definition example_water_trail :: "nat feature" where
  "example_water_trail = (blank {3})\<lparr>trailtype := Some ''Water Trail''\<rparr>"

definition example_road :: "nat feature" where
  "example_road = (blank {1})\<lparr>tnmfrc := Some 2\<rparr>"

definition example_ferry :: "nat feature" where
  "example_ferry = (blank {4})\<lparr>tnmfrc := Some 7\<rparr>"

definition example_agency_road :: "nat feature" where
  "example_agency_road = (blank {1, 5, 6})\<lparr>LANES := Some ''2 - DOUBLE LANE''\<rparr>"

definition example_agency_spur :: "nat feature" where
  "example_agency_spur = (blank {2, 7})\<lparr>LANES := Some ''1 - SINGLE LANE''\<rparr>"

definition example_state :: "nat state" where
  "example_state =
     \<lparr>datasets =
        [UserParam 0 \<mapsto> [example_perimeter],
         UserParam 1 \<mapsto> [example_rail],
         UserParam 2 \<mapsto> [example_trail, example_water_trail],
         UserParam 3 \<mapsto> [example_road, example_ferry],
         UserParam 4 \<mapsto> [example_agency_road, example_agency_spur]],
      layers = Map.empty, messages = [], stdout = [], IncName = None\<rparr>"


text \<open>The scratch workspace as the clips of lines 118-121 leave it on that data.\<close>

definition example_clipped :: "nat state" where
  "example_clipped =
     \<lparr>datasets =
        [Workspace ''AOIClp_RailFeature'' \<mapsto> [example_rail],
         Workspace ''AOIClp_TrailSegment'' \<mapsto> [example_trail],
         Workspace ''AOIClp_RoadSegment'' \<mapsto> [example_road],
         Workspace ''AOI_Clp_RoadCore_FS'' \<mapsto> [example_agency_road, example_agency_spur]],
      layers = Map.empty, messages = [], stdout = [], IncName = Some ''TestFire''\<rparr>"

text \<open>The agency roads as the erase of line 168 leaves them on that data.\<close>

definition example_erased :: "nat state" where
  "example_erased =
     \<lparr>datasets =
        [Workspace ''USFS_Roads_USGS_EraseBuff'' \<mapsto>
           [example_agency_road\<lparr>shape := {5, 6}\<rparr>, example_agency_spur\<lparr>shape := {7}\<rparr>]],
      layers = Map.empty, messages = [], stdout = [], IncName = Some ''TestFire''\<rparr>"

text \<open>The scratch workspace as the first phase leaves it on that data.\<close>

definition example_preprocessed :: "nat state" where
  "example_preprocessed =
     \<lparr>datasets =
        [Workspace ''AOIClp_RailFeature'' \<mapsto> [example_rail],
         Workspace ''AOIClp_RoadSegment'' \<mapsto> [example_road],
         Workspace ''AOI_Clp_Trails_RoadsErased'' \<mapsto> [example_trail\<lparr>shape := {2}\<rparr>],
         Workspace ''USFS_Roads_USGS_EraseBuff'' \<mapsto>
           [example_agency_road\<lparr>shape := {5, 6}, LineLength := Some 120\<rparr>]],
      layers = Map.empty, messages = [], stdout = [], IncName = Some ''TestFire''\<rparr>"

text \<open>The dataset a block leaves under a name, when the block returns.\<close>

definition dataset_after :: "'a step list \<Rightarrow> 'a state \<Rightarrow> dataset \<Rightarrow> 'a feature list option" where
  "dataset_after steps s d = (case run steps s of Inl e \<Rightarrow> None | Inr s' \<Rightarrow> datasets s' d)"

section \<open>Properties\<close>

subsection \<open>Running a block\<close>

lemma run_append:
  "run (xs @ ys) s = (case run xs s of Inl e \<Rightarrow> Inl e | Inr s' \<Rightarrow> run ys s')"
  by (induction xs arbitrary: s) (auto split: sum.splits)

lemma run_Cons_Inr:
  "run (st # sts) s = Inr s' \<longleftrightarrow> (\<exists>s1. st s = Inr s1 \<and> run sts s1 = Inr s')"
  by (auto split: sum.splits)

lemma run_Cons_Inl:
  "run (st # sts) s = Inl er \<longleftrightarrow> st s = Inl er \<or> (\<exists>s1. st s = Inr s1 \<and> run sts s1 = Inl er)"
  by (auto split: sum.splits)

lemma run_Nil_Inr: "run [] s = Inr s' \<longleftrightarrow> s' = s"
  by auto

lemma run_append_Inr:
  "run (xs @ ys) s = Inr r \<longleftrightarrow> (\<exists>s1. run xs s = Inr s1 \<and> run ys s1 = Inr r)"
  by (auto simp: run_append split: sum.splits)

lemma run_append_Inl:
  "run (xs @ ys) s = Inl er \<longleftrightarrow>
     run xs s = Inl er \<or> (\<exists>s1. run xs s = Inr s1 \<and> run ys s1 = Inl er)"
  by (auto simp: run_append split: sum.splits)

lemma gp_tool_Inr:
  "gp_tool env line body s = Inr s' \<longleftrightarrow> faults env line = None \<and> body s = Some s'"
  by (auto simp: gp_tool_def split: option.splits)

lemma gp_tool_Inl:
  "gp_tool env line body s = Inl (e, s') \<Longrightarrow> s' = s"
  by (auto simp: gp_tool_def split: option.splits)

lemma datasets_put [simp]:
  "datasets (put d fs s) d' = (if d' = d then Some fs else datasets s d')"
  by (simp add: put_def)

lemma put_other [simp]:
  "layers (put d fs s) = layers s" "messages (put d fs s) = messages s"
  "stdout (put d fs s) = stdout s" "IncName (put d fs s) = IncName s"
  by (simp_all add: put_def)

subsection \<open>When a tool call returns\<close>

lemma PairwiseIntersect_Inr:
  "PairwiseIntersect env line in1 in2 out s = Inr s' \<longleftrightarrow>
     faults env line = None \<and>
     (\<exists>as bs. datasets s in1 = Some as \<and> datasets s in2 = Some bs \<and>
        s' = put out (intersect_features as bs) s)"
  by (auto simp: PairwiseIntersect_def gp_tool_Inr split: option.splits)

lemma PairwiseErase_Inr:
  "PairwiseErase env line inp er out s = Inr s' \<longleftrightarrow>
     faults env line = None \<and>
     (\<exists>fs es. datasets s inp = Some fs \<and> datasets s er = Some es \<and>
        s' = put out (erase_features (shapes es) fs) s)"
  by (auto simp: PairwiseErase_def gp_tool_Inr split: option.splits)

lemma Merge_Inr:
  "Merge env line inputs out s = Inr s' \<longleftrightarrow>
     faults env line = None \<and> (\<exists>fs. gather s inputs = Some fs \<and> s' = put out fs s)"
  by (auto simp: Merge_def gp_tool_Inr split: option.splits)

lemma edit_rows_Inr:
  "edit_rows env line d f s = Inr s' \<longleftrightarrow>
     faults env line = None \<and> (\<exists>fs. datasets s d = Some fs \<and> s' = put d (f fs) s)"
  by (auto simp: edit_rows_def gp_tool_Inr split: option.splits)

lemma PairwiseDissolve_Inr:
  "PairwiseDissolve env line inp out key with_key s = Inr s' \<longleftrightarrow>
     faults env line = None \<and>
     (\<exists>fs. datasets s inp = Some fs \<and> s' = put out (dissolve_features key with_key fs) s)"
  by (auto simp: PairwiseDissolve_def gp_tool_Inr split: option.splits)

lemma MakeFeatureLayer_Inr:
  "MakeFeatureLayer env line d name w s = Inr s' \<longleftrightarrow>
     faults env line = None \<and> datasets s d \<noteq> None \<and> s' = s\<lparr>layers := (layers s)(name \<mapsto> (d, w))\<rparr>"
  by (auto simp: MakeFeatureLayer_def gp_tool_Inr split: option.splits)

lemma DeleteFeatures_Inr:
  "DeleteFeatures env line name s = Inr s' \<longleftrightarrow>
     faults env line = None \<and>
     (\<exists>d w fs. layers s name = Some (d, w) \<and> datasets s d = Some fs \<and>
        s' = put d (filter (\<lambda>f. \<not> selected w f) fs) s)"
  by (auto simp: DeleteFeatures_def gp_tool_Inr split: option.splits)

subsection \<open>Intersect, then erase\<close>

lemma shapes_intersect_features:
  "shapes (intersect_features as bs) = shapes as \<inter> shapes bs"
  by (auto simp: shapes_def intersect_features_def blank_def)

lemma shape_in_shapes: "f \<in> set fs \<Longrightarrow> shape f \<subseteq> shapes fs"
  by (auto simp: shapes_def)

lemma erase_features_shape:
  "g \<in> set (erase_features region fs) \<Longrightarrow> \<exists>x \<in> set fs. shape g = shape x - region"
  by (auto simp: erase_features_def)

lemma erase_intersect_disjoint:
  assumes g: "g \<in> set (erase_features (shapes (intersect_features hs ls)) ls)"
    and f: "f \<in> set hs"
  shows "shape g \<inter> shape f = {}"
proof -
  from g obtain x where x: "x \<in> set ls" and sg: "shape g = shape x - (shapes hs \<inter> shapes ls)"
    by (auto simp: shapes_intersect_features dest: erase_features_shape)
  from x have "shape x \<subseteq> shapes ls" by (rule shape_in_shapes)
  moreover from f have "shape f \<subseteq> shapes hs" by (rule shape_in_shapes)
  ultimately show ?thesis using sg by blast
qed

lemma delete_exact_duplicates_Inr:
  assumes "run (delete_exact_duplicates env) s = Inr s'"
  obtains H T F where
    "datasets s (Workspace ''AOIClp_RoadSegment'') = Some H"
    "datasets s (Workspace ''AOIClp_TrailSegment'') = Some T"
    "datasets s (Workspace ''AOI_Clp_RoadCore_FS'') = Some F"
    "datasets s' (Workspace ''AOIClp_RoadSegment'') = Some H"
    "datasets s' (Workspace ''AOI_Clp_Trails_RoadsErased'') =
       Some (erase_features (shapes (intersect_features H T)) T)"
    "datasets s' (Workspace ''USGS_TrailsRoads_Mrg'') =
       Some (map (\<lambda>f. (blank (shape f))\<lparr>permanent_identifier := permanent_identifier f\<rparr>) H
             @ map (\<lambda>f. blank (shape f)) (erase_features (shapes (intersect_features H T)) T))"
    "datasets s' (Workspace ''USFS_Roads_USGS_Erased'') =
       Some (erase_features (shapes (intersect_features
               (map (\<lambda>f. (blank (shape f))\<lparr>permanent_identifier := permanent_identifier f\<rparr>) H
                @ map (\<lambda>f. blank (shape f)) (erase_features (shapes (intersect_features H T)) T)) F)) F)"
  using assms
  unfolding delete_exact_duplicates_def run_Cons_Inr run_Nil_Inr PairwiseIntersect_Inr PairwiseErase_Inr Merge_Inr
  by (auto split: option.splits)

subsection \<open>Frames of the tools and of the two phases\<close>

lemma writes_withinD:
  "writes_within N steps \<Longrightarrow> run steps s = Inr r \<Longrightarrow> d \<notin> N \<Longrightarrow> datasets r d = datasets s d"
  by (auto simp: writes_within_def)

lemma writes_within_Nil: "writes_within N []"
  by (simp add: writes_within_def)

lemma writes_within_append:
  assumes "writes_within N xs" "writes_within N ys"
  shows "writes_within N (xs @ ys)"
  unfolding writes_within_def
proof (intro allI impI)
  fix s r
  assume "run (xs @ ys) s = Inr r \<or> (\<exists>e. run (xs @ ys) s = Inl (e, r))"
  then consider (a) "\<exists>e. run xs s = Inl (e, r)"
    | (b) s1 where "run xs s = Inr s1" "run ys s1 = Inr r \<or> (\<exists>e. run ys s1 = Inl (e, r))"
    by (auto simp: run_append_Inr run_append_Inl)
  then show "IncName r = IncName s \<and> (\<forall>d. d \<notin> N \<longrightarrow> datasets r d = datasets s d)"
  proof cases
    case a
    with assms(1) show ?thesis unfolding writes_within_def by blast
  next
    case b
    from assms(1) b(1) have 1: "IncName s1 = IncName s \<and> (\<forall>d. d \<notin> N \<longrightarrow> datasets s1 d = datasets s d)"
      unfolding writes_within_def by blast
    from assms(2) b(2) have 2: "IncName r = IncName s1 \<and> (\<forall>d. d \<notin> N \<longrightarrow> datasets r d = datasets s1 d)"
      unfolding writes_within_def by blast
    from 1 2 show ?thesis by simp
  qed
qed

lemma writes_within_Cons:
  "writes_within N [x] \<Longrightarrow> writes_within N xs \<Longrightarrow> writes_within N (x # xs)"
  using writes_within_append [of N "[x]" xs] by simp

lemma writes_within_Cons2:
  "writes_within N [x, y] \<Longrightarrow> writes_within N xs \<Longrightarrow> writes_within N (x # y # xs)"
  using writes_within_append [of N "[x, y]" xs] by simp

lemma writes_within_gp_tool:
  assumes "\<And>s s'. body s = Some s' \<Longrightarrow>
    IncName s' = IncName s \<and> (\<forall>d. d \<notin> N \<longrightarrow> datasets s' d = datasets s d)"
  shows "writes_within N [gp_tool env line body]"
  using assms by (auto simp: writes_within_def gp_tool_def split: option.splits sum.splits)

lemma writes_within_tools:
  "out \<in> N \<Longrightarrow> writes_within N [PairwiseBuffer env line inp out distance]"
  "out \<in> N \<Longrightarrow> writes_within N [PairwiseClip env line inp clip out]"
  "out \<in> N \<Longrightarrow> writes_within N [PairwiseIntersect env line in1 in2 out]"
  "out \<in> N \<Longrightarrow> writes_within N [PairwiseErase env line inp er out]"
  "out \<in> N \<Longrightarrow> writes_within N [Merge env line inputs out]"
  "out \<in> N \<Longrightarrow> writes_within N [PairwiseDissolve env line inp out key with_key]"
  "d \<in> N \<Longrightarrow> writes_within N [RepairGeometry env line d]"
  "d \<in> N \<Longrightarrow> writes_within N [AddField env line d null_field]"
  "d \<in> N \<Longrightarrow> writes_within N [CalculateField env line d calc]"
  "d \<in> N \<Longrightarrow> writes_within N [CalculateGeometryAttributes env line d]"
  unfolding PairwiseBuffer_def PairwiseClip_def PairwiseIntersect_def PairwiseErase_def Merge_def
    PairwiseDissolve_def RepairGeometry_def AddField_def CalculateField_def
    CalculateGeometryAttributes_def edit_rows_def
  by (rule writes_within_gp_tool; auto split: option.splits)+

lemma writes_within_layer_delete:
  "d \<in> N \<Longrightarrow> writes_within N [MakeFeatureLayer env l1 d name w, DeleteFeatures env l2 name]"
  by (auto simp: writes_within_def MakeFeatureLayer_def DeleteFeatures_def gp_tool_def
      split: option.splits sum.splits)

lemma datasets_Delete_if_Exists:
  "datasets (Delete_if_Exists fc s) d = (if d = Workspace fc then None else datasets s d)"
  by (auto simp: Delete_if_Exists_def split: option.splits)

lemma other_Delete_if_Exists [simp]:
  "IncName (Delete_if_Exists fc s) = IncName s" "messages (Delete_if_Exists fc s) = messages s"
  "layers (Delete_if_Exists fc s) = layers s" "stdout (Delete_if_Exists fc s) = stdout s"
  by (auto simp: Delete_if_Exists_def split: option.splits)

lemma datasets_cleanup:
  "datasets (cleanup fcs s) d = (if d \<in> Workspace ` set fcs then None else datasets s d)"
  unfolding cleanup_def
  by (induction fcs arbitrary: s) (auto simp: datasets_Delete_if_Exists)

lemma other_cleanup [simp]:
  "IncName (cleanup fcs s) = IncName s" "messages (cleanup fcs s) = messages s"
  "layers (cleanup fcs s) = layers s" "stdout (cleanup fcs s) = stdout s"
  unfolding cleanup_def
  by (induction fcs arbitrary: s) auto

lemma writes_within_stmt:
  "writes_within N [stmt (AddMessage m)]"
  "Workspace ` set fcs \<subseteq> N \<Longrightarrow> writes_within N [stmt (cleanup fcs)]"
  by (auto simp: writes_within_def stmt_def AddMessage_def datasets_cleanup)

lemmas writes_within_intros =
  writes_within_Nil
  writes_within_Cons2 [OF writes_within_layer_delete]
  writes_within_Cons [OF writes_within_tools(1)]
  writes_within_Cons [OF writes_within_tools(2)]
  writes_within_Cons [OF writes_within_tools(3)]
  writes_within_Cons [OF writes_within_tools(4)]
  writes_within_Cons [OF writes_within_tools(5)]
  writes_within_Cons [OF writes_within_tools(6)]
  writes_within_Cons [OF writes_within_tools(7)]
  writes_within_Cons [OF writes_within_tools(8)]
  writes_within_Cons [OF writes_within_tools(9)]
  writes_within_Cons [OF writes_within_tools(10)]
  writes_within_Cons [OF writes_within_stmt(1)]
  writes_within_Cons [OF writes_within_stmt(2)]

lemma writes_within_preprocessing_tail:
  "writes_within ({UserParam 2, UserParam 3} \<union> Workspace ` set fc_Delete_line186)
     (tl (preprocessing env))"
  unfolding preprocessing_def delete_by_attribution_def clip_to_AOI_def delete_exact_duplicates_def
    repair_geometry_def remove_similar_geometry_def delete_small_segments_def
    fc_Delete_line186_def fc_Delete_line159_def fc_Delete_line177_def
  apply simp
  apply (intro writes_within_intros)
                      apply simp_all
  done

lemma writes_within_before_output:
  "writes_within (Workspace ` set fc_Delete_line288)
     (attribute_road_width env @ attribute_rail_trail_width env @ attribute_source env
        @ [merge_containment env])"
  unfolding attribute_road_width_def attribute_rail_trail_width_def attribute_source_def
    merge_containment_def fc_Delete_line288_def
  apply simp
  apply (intro writes_within_intros)
                 apply simp_all
  done

subsection \<open>A block that returns made every call without a fault\<close>










subsection \<open>The state an exception leaves behind\<close>

lemma get_IncName_datasets:
  "get_IncName env s = Inr r \<or> get_IncName env s = Inl (e, r) \<Longrightarrow> datasets r = datasets s"
  by (auto simp: get_IncName_def AddError_def AddMessage_def split: option.splits list.splits)

lemma preprocessing_Cons: "preprocessing env = get_IncName env # tl (preprocessing env)"
  by (simp add: preprocessing_def)

lemma preprocessing_frame:
  assumes "run (preprocessing env) s = Inr r \<or> run (preprocessing env) s = Inl (e, r)"
    and "d \<notin> {UserParam 2, UserParam 3} \<union> Workspace ` set fc_Delete_line186"
  shows "datasets r d = datasets s d"
proof -
  from assms(1) have "run (get_IncName env # tl (preprocessing env)) s = Inr r
      \<or> run (get_IncName env # tl (preprocessing env)) s = Inl (e, r)"
    using preprocessing_Cons [of env] by simp
  then consider (a) "get_IncName env s = Inl (e, r)"
    | (b) s1 where "get_IncName env s = Inr s1"
        "run (tl (preprocessing env)) s1 = Inr r \<or> (\<exists>e. run (tl (preprocessing env)) s1 = Inl (e, r))"
    unfolding run_Cons_Inr run_Cons_Inl by blast
  then show ?thesis
  proof cases
    case a
    then show ?thesis using get_IncName_datasets [of env s r e] by simp
  next
    case b
    from b(1) have "datasets s1 = datasets s" using get_IncName_datasets [of env s s1 e] by simp
    moreover from b(2) assms(2) writes_within_preprocessing_tail [of env]
    have "datasets r d = datasets s1 d" unfolding writes_within_def by blast
    ultimately show ?thesis by simp
  qed
qed





lemma width_attribution_split:
  "width_attribution env =
     (attribute_road_width env @ attribute_rail_trail_width env @ attribute_source env
        @ [merge_containment env])
     @ [dissolve_to_output env] @ finish env"
  by (simp add: width_attribution_def)







subsection \<open>The abort of a run\<close>


lemma main_Finished:
  assumes "main env s = (Finished, s')"
  obtains s1 where "run (preprocessing env) s = Inr s1" "run (width_attribution env) s1 = Inr s'"
  using assms by (auto simp: main_def split: sum.splits)



subsection \<open>The where clauses\<close>

lemma sql_like_percent:
  "sql_like (CHR ''%'' # ps) s \<longleftrightarrow> (\<exists>t. suffix t s \<and> sql_like ps t)"
proof (induction s)
  case Nil
  show ?case by simp
next
  case (Cons c cs)
  have "sql_like (CHR ''%'' # ps) (c # cs) \<longleftrightarrow> sql_like ps (c # cs) \<or> sql_like (CHR ''%'' # ps) cs"
    by simp
  also have "\<dots> \<longleftrightarrow> sql_like ps (c # cs) \<or> (\<exists>t. suffix t cs \<and> sql_like ps t)"
    by (simp only: Cons.IH)
  also have "\<dots> \<longleftrightarrow> (\<exists>t. suffix t (c # cs) \<and> sql_like ps t)"
    by (auto simp: suffix_Cons)
  finally show ?case .
qed

lemma sql_like_literal:
  assumes "\<forall>c \<in> set lit. c \<noteq> CHR ''%'' \<and> c \<noteq> CHR ''_''"
  shows "sql_like (lit @ ''%'') s \<longleftrightarrow> prefix lit s"
  using assms
proof (induction lit arbitrary: s)
  case Nil
  have "sql_like ''%'' s" by (induction s) auto
  then show ?case by simp
next
  case (Cons p ps)
  then show ?case by (cases s) auto
qed

lemma sql_like_Water: "sql_like ''%Water%'' t \<longleftrightarrow> sublist ''Water'' t"
proof -
  have "sql_like (''Water'' @ ''%'') u \<longleftrightarrow> prefix ''Water'' u" for u
    by (rule sql_like_literal) simp
  then have "sql_like ''%Water%'' t \<longleftrightarrow> (\<exists>u. suffix u t \<and> prefix ''Water'' u)"
    using sql_like_percent [of "''Water%''" t] by simp
  then show ?thesis by (simp add: sublist_altdef')
qed

subsection \<open>What the blocks of the first phase compute\<close>

lemma delete_by_attribution_Inr:
  assumes "run (delete_by_attribution env) s = Inr s'"
  obtains roads trails where
    "datasets s (UserParam 3) = Some roads"
    "datasets s (UserParam 2) = Some trails"
    "datasets s' (UserParam 3) = Some (filter (\<lambda>f. \<not> selected (TnmfrcIn [7, 8]) f) roads)"
    "datasets s' (UserParam 2) = Some (filter (\<lambda>f. \<not> selected (TrailtypeLike ''%Water%'') f) trails)"
  using assms
  unfolding delete_by_attribution_def run_Cons_Inr run_Nil_Inr MakeFeatureLayer_Inr DeleteFeatures_Inr
  by (auto split: if_splits)

lemma delete_small_segments_Inr:
  assumes "run (delete_small_segments env) s = Inr s'"
  obtains fs where
    "datasets s (Workspace ''USFS_Roads_USGS_EraseBuff'') = Some fs"
    "datasets s' (Workspace ''USFS_Roads_USGS_EraseBuff'') =
       Some (filter (\<lambda>f. \<not> selected (LineLengthLess (USFS_RoadLineLengthToDel env)) f)
              (map (\<lambda>f. f\<lparr>LineLength := Some (length_geodesic env (shape f))\<rparr>)
                (map (\<lambda>f. f\<lparr>LineLength := None\<rparr>) fs)))"
  using assms
  unfolding delete_small_segments_def run_Cons_Inr run_Nil_Inr MakeFeatureLayer_Inr DeleteFeatures_Inr
    AddField_def CalculateGeometryAttributes_def edit_rows_Inr
  by (auto split: if_splits)

subsection \<open>Dissolving\<close>

lemma dissolve_features_keys:
  assumes "\<And>k b. key (with_key k b) = k"
  shows "map key (dissolve_features key with_key fs) = remdups (map key fs)"
  by (simp add: dissolve_features_def assms comp_def)

lemma dissolve_features_key_in:
  assumes "\<And>k b. key (with_key k b) = k" and "f \<in> set (dissolve_features key with_key fs)"
  shows "key f \<in> key ` set fs"
proof -
  from assms(2) have "key f \<in> set (map key (dissolve_features key with_key fs))" by simp
  then show ?thesis by (simp add: dissolve_features_keys [OF assms(1)])
qed

lemma dissolve_features_shape:
  assumes "\<And>k b. key (with_key k b) = k" and "\<And>k b. shape (with_key k b) = shape b"
    and "f \<in> set (dissolve_features key with_key fs)"
  shows "shape f = shapes (filter (\<lambda>g. key g = key f) fs)"
  using assms(3) by (auto simp: dissolve_features_def assms(1,2) blank_def)

subsection \<open>What the blocks of the second phase compute\<close>

lemma attribute_road_width_Inr:
  assumes "run (attribute_road_width env) s = Inr s'"
  obtains R U where
    "datasets s (Workspace ''AOIClp_RoadSegment'') = Some R"
    "datasets s (Workspace ''USFS_Roads_USGS_EraseBuff'') = Some U"
    "datasets s' (Workspace ''AOIClp_USGS_Road_TNMFRC_Diss'') =
       Some (map (\<lambda>f. f\<lparr>Width := Reclass_tnmfrc (tnmfrc f)\<rparr>)
              (dissolve_features tnmfrc (\<lambda>k f. f\<lparr>tnmfrc := k\<rparr>) R))"
    "datasets s' (Workspace ''USFS_Roads_Diss_ALL'') =
       Some (map (\<lambda>f. f\<lparr>Width := Reclass_LaneWidth (LaneWidth f)\<rparr>)
              (dissolve_features LaneWidth (\<lambda>k f. f\<lparr>LaneWidth := k\<rparr>)
                (map (\<lambda>f. f\<lparr>LaneWidth := rcls (LANES f)\<rparr>) U)))"
  using assms
  unfolding attribute_road_width_def run_Cons_Inr run_Nil_Inr PairwiseDissolve_Inr
    CalculateField_def edit_rows_Inr
  by (auto split: if_splits)

lemma attribute_rail_trail_width_Inr:
  assumes "run (attribute_rail_trail_width env) s = Inr s'"
  obtains R T where
    "datasets s (Workspace ''AOIClp_RailFeature'') = Some R"
    "datasets s (Workspace ''AOI_Clp_Trails_RoadsErased'') = Some T"
    "datasets s' (Workspace ''AOIClp_Rail_Diss'') =
       Some (dissolve_features Width (\<lambda>k f. f\<lparr>Width := k\<rparr>) (map (\<lambda>f. f\<lparr>Width := Some 8\<rparr>) R))"
    "datasets s' (Workspace ''AOI_Clp_Trails_Diss'') =
       Some (dissolve_features Width (\<lambda>k f. f\<lparr>Width := k\<rparr>)
              (map (\<lambda>f. f\<lparr>Width := Reclass_ohvover50inches (ohvover50inches f)\<rparr>)
                (map (\<lambda>f. f\<lparr>Width := None\<rparr>) T)))"
  using assms
  unfolding attribute_rail_trail_width_def run_Cons_Inr run_Nil_Inr PairwiseDissolve_Inr
    CalculateField_def AddField_def edit_rows_Inr
  by (auto split: if_splits)

lemma writes_within_attribute_rail_trail_width:
  "writes_within
     {Workspace ''AOIClp_RailFeature'', Workspace ''AOIClp_Rail_Diss'',
      Workspace ''AOI_Clp_Trails_RoadsErased'', Workspace ''AOI_Clp_Trails_Diss''}
     (attribute_rail_trail_width env)"
  unfolding attribute_rail_trail_width_def
  by (intro writes_within_intros) simp_all

lemma Reclass_tnmfrc_nonneg: "Reclass_tnmfrc (Some c) = Some w \<Longrightarrow> 0 \<le> w"
  by (auto simp: Reclass_tnmfrc_def split: if_splits)

lemma Reclass_tnmfrc_Some: "\<exists>w. Reclass_tnmfrc (Some c) = Some w"
  by (simp add: Reclass_tnmfrc_def)

lemma Reclass_LaneWidth_total: "\<exists>w. Reclass_LaneWidth v = Some w \<and> 0 \<le> w"
  by (simp add: Reclass_LaneWidth_def)

lemma Reclass_ohvover50inches_total:
  "Reclass_ohvover50inches v = Some 1.5 \<or> Reclass_ohvover50inches v = Some 0.5"
  by (simp add: Reclass_ohvover50inches_def)

lemma Width_calculated:
  assumes "f \<in> set (map (\<lambda>f. f\<lparr>Width := calc f\<rparr>) fs)"
  obtains g where "g \<in> set fs" "f = g\<lparr>Width := calc g\<rparr>"
  using assms by auto

lemma road_widths:
  "\<forall>f \<in> set (map (\<lambda>f. f\<lparr>Width := Reclass_tnmfrc (tnmfrc f)\<rparr>) fs).
     Width f = Reclass_tnmfrc (tnmfrc f) \<and>
     (tnmfrc f = None \<longrightarrow> Width f = None) \<and>
     (tnmfrc f \<noteq> None \<longrightarrow> (\<exists>w. Width f = Some w \<and> 0 \<le> w))"
proof
  fix f assume "f \<in> set (map (\<lambda>f. f\<lparr>Width := Reclass_tnmfrc (tnmfrc f)\<rparr>) fs)"
  then obtain g where "f = g\<lparr>Width := Reclass_tnmfrc (tnmfrc g)\<rparr>" by (rule Width_calculated)
  then have w: "Width f = Reclass_tnmfrc (tnmfrc f)" by simp
  show "Width f = Reclass_tnmfrc (tnmfrc f) \<and>
     (tnmfrc f = None \<longrightarrow> Width f = None) \<and>
     (tnmfrc f \<noteq> None \<longrightarrow> (\<exists>w. Width f = Some w \<and> 0 \<le> w))"
  proof (cases "tnmfrc f")
    case None
    with w show ?thesis by (simp add: Reclass_tnmfrc_def)
  next
    case (Some c)
    from Reclass_tnmfrc_Some [of c] obtain v where v: "Reclass_tnmfrc (Some c) = Some v" ..
    then have "0 \<le> v" by (rule Reclass_tnmfrc_nonneg)
    with w Some v show ?thesis by simp
  qed
qed

lemma agency_widths:
  "\<forall>f \<in> set (map (\<lambda>f. f\<lparr>Width := Reclass_LaneWidth (LaneWidth f)\<rparr>) fs).
     \<exists>w. Width f = Some w \<and> 0 \<le> w"
proof
  fix f assume "f \<in> set (map (\<lambda>f. f\<lparr>Width := Reclass_LaneWidth (LaneWidth f)\<rparr>) fs)"
  then obtain g where "f = g\<lparr>Width := Reclass_LaneWidth (LaneWidth g)\<rparr>" by (rule Width_calculated)
  then have "Width f = Reclass_LaneWidth (LaneWidth g)" by simp
  then show "\<exists>w. Width f = Some w \<and> 0 \<le> w"
    using Reclass_LaneWidth_total [of "LaneWidth g"] by simp
qed

lemma rail_widths:
  "\<forall>f \<in> set (dissolve_features Width (\<lambda>k f. f\<lparr>Width := k\<rparr>) (map (\<lambda>f. f\<lparr>Width := Some 8\<rparr>) fs)).
     Width f = Some 8"
proof
  fix f :: "'a feature"
  assume "f \<in> set (dissolve_features Width (\<lambda>k f. f\<lparr>Width := k\<rparr>) (map (\<lambda>f. f\<lparr>Width := Some 8\<rparr>) fs))"
  then have "Width f \<in> Width ` set (map (\<lambda>f. f\<lparr>Width := Some 8\<rparr>) fs)"
    by (rule dissolve_features_key_in [rotated]) simp
  then obtain h where "h \<in> set (map (\<lambda>f. f\<lparr>Width := Some 8\<rparr>) fs)" "Width f = Width h" by blast
  moreover from this(1) obtain g where "h = g\<lparr>Width := Some 8\<rparr>" by (rule Width_calculated)
  ultimately show "Width f = Some 8" by simp
qed

lemma trail_widths:
  "\<forall>f \<in> set (dissolve_features Width (\<lambda>k f. f\<lparr>Width := k\<rparr>)
        (map (\<lambda>f. f\<lparr>Width := Reclass_ohvover50inches (ohvover50inches f)\<rparr>) fs)).
     Width f = Some 1.5 \<or> Width f = Some 0.5"
proof
  fix f :: "'a feature"
  assume "f \<in> set (dissolve_features Width (\<lambda>k f. f\<lparr>Width := k\<rparr>)
        (map (\<lambda>f. f\<lparr>Width := Reclass_ohvover50inches (ohvover50inches f)\<rparr>) fs))"
  then have "Width f \<in> Width ` set (map (\<lambda>f. f\<lparr>Width := Reclass_ohvover50inches (ohvover50inches f)\<rparr>) fs)"
    by (rule dissolve_features_key_in [rotated]) simp
  then obtain h where "h \<in> set (map (\<lambda>f. f\<lparr>Width := Reclass_ohvover50inches (ohvover50inches f)\<rparr>) fs)"
    "Width f = Width h" by blast
  moreover from this(1) obtain g where "h = g\<lparr>Width := Reclass_ohvover50inches (ohvover50inches g)\<rparr>"
    by (rule Width_calculated)
  ultimately have "Width f = Reclass_ohvover50inches (ohvover50inches g)" by simp
  then show "Width f = Some 1.5 \<or> Width f = Some 0.5"
    using Reclass_ohvover50inches_total [of "ohvover50inches g"] by simp
qed

subsection \<open>A run that finishes\<close>

lemma preprocessing_IncName:
  assumes "run (preprocessing env) s = Inr s1"
  shows "\<exists>row rest name.
     datasets s (UserParam 0) = Some (row # rest) \<and> attr_IncidentName row = Some name \<and>
     IncName s1 = Some (filter (\<lambda>c. c \<noteq> CHR '' '') name)"
proof -
  from assms have "run (get_IncName env # tl (preprocessing env)) s = Inr s1"
    using preprocessing_Cons [of env] by simp
  then obtain s0 where g: "get_IncName env s = Inr s0" and t: "run (tl (preprocessing env)) s0 = Inr s1"
    unfolding run_Cons_Inr by blast
  have tleq: "tl (preprocessing env) =
      stmt (AddMessage ''Buffering Perimeters to ID AOI'')
      # PairwiseBuffer env 104 (UserParam 0) (Workspace ''Perims_10kmBuff'') ''1 Kilometers''
      # drop 3 (preprocessing env)"
    by (simp add: preprocessing_def)
  from t [unfolded tleq run_Cons_Inr]
  obtain a b where "stmt (AddMessage ''Buffering Perimeters to ID AOI'') s0 = Inr a"
    "PairwiseBuffer env 104 (UserParam 0) (Workspace ''Perims_10kmBuff'') ''1 Kilometers'' a = Inr b"
    by blast
  then have "datasets s0 (UserParam 0) \<noteq> None"
    by (auto simp: stmt_def AddMessage_def PairwiseBuffer_def gp_tool_Inr split: option.splits)
  moreover from g have "datasets s0 = datasets s" using get_IncName_datasets [of env s s0] by simp
  ultimately have "datasets s (UserParam 0) \<noteq> None" by simp
  with g have "\<exists>row rest name.
     datasets s (UserParam 0) = Some (row # rest) \<and> attr_IncidentName row = Some name \<and>
     IncName s0 = Some (filter (\<lambda>c. c \<noteq> CHR '' '') name)"
    by (auto simp: get_IncName_def AddMessage_def split: option.splits list.splits)
  moreover from t writes_within_preprocessing_tail [of env] have "IncName s1 = IncName s0"
    unfolding writes_within_def by blast
  ultimately show ?thesis by simp
qed

lemma width_attribution_output:
  assumes "run (width_attribution env) s1 = Inr s'"
  shows "\<exists>inc merged.
     IncName s1 = Some inc \<and> IncName s' = Some inc \<and>
     datasets s' (Workspace ''trans_usgs_usfs_containment'') = Some merged \<and>
     datasets s' (OutputGdb (output_name env inc)) =
       Some (dissolve_features (\<lambda>f. (Source f, Width f)) (\<lambda>k f. f\<lparr>Source := fst k, Width := snd k\<rparr>) merged) \<and>
     (\<forall>n. n \<noteq> output_name env inc \<longrightarrow> datasets s' (OutputGdb n) = datasets s1 (OutputGdb n))"
proof -
  let ?pre = "attribute_road_width env @ attribute_rail_trail_width env @ attribute_source env
        @ [merge_containment env]"
  from assms have "run (?pre @ [dissolve_to_output env] @ finish env) s1 = Inr s'"
    by (simp only: width_attribution_split)
  then obtain s2 where p: "run ?pre s1 = Inr s2"
    and "run ([dissolve_to_output env] @ finish env) s2 = Inr s'"
    using run_append_Inr [of ?pre "[dissolve_to_output env] @ finish env" s1 s'] by blast
  then have "run (dissolve_to_output env # finish env) s2 = Inr s'" by simp
  then obtain s3 where d: "dissolve_to_output env s2 = Inr s3" and f: "run (finish env) s3 = Inr s'"
    unfolding run_Cons_Inr by blast
  from p writes_within_before_output [of env]
  have i: "IncName s2 = IncName s1 \<and> (\<forall>n. datasets s2 (OutputGdb n) = datasets s1 (OutputGdb n))"
    unfolding writes_within_def by blast
  from d obtain inc merged where "IncName s2 = Some inc"
    "datasets s2 (Workspace ''trans_usgs_usfs_containment'') = Some merged"
    "s3 = put (OutputGdb (output_name env inc))
       (dissolve_features (\<lambda>f. (Source f, Width f)) (\<lambda>k f. f\<lparr>Source := fst k, Width := snd k\<rparr>) merged) s2"
    by (auto simp: dissolve_to_output_def PairwiseDissolve_Inr split: option.splits)
  moreover from f have "s' = AddMessage (''Script Finished Running, Output located here: ''
              @ output_fgdb env @ ''/'' @ ''trans_usgs_usfs_containment_'' @ datetime env)
      (cleanup fc_Delete_line276 s3)"
    by (simp add: finish_def stmt_def)
  ultimately show ?thesis using i
    by (auto simp: AddMessage_def datasets_cleanup fc_Delete_line276_def)
qed

subsection \<open>Evaluating the tools on concrete data\<close>

lemmas tool_defs =
  PairwiseBuffer_def PairwiseClip_def PairwiseIntersect_def PairwiseErase_def Merge_def
  PairwiseDissolve_def RepairGeometry_def AddField_def CalculateField_def
  CalculateGeometryAttributes_def edit_rows_def MakeFeatureLayer_def DeleteFeatures_def
  gp_tool_def stmt_def get_IncName_def AddMessage_def AddError_def put_def cleanup_def
  Delete_if_Exists_def buffer_all_def clip_features_def intersect_features_def
  erase_features_def dissolve_features_def shapes_def blank_def selected_def

lemmas example_defs =
  example_env_def example_state_def example_perimeter_def example_rail_def example_trail_def
  example_water_trail_def example_road_def example_ferry_def example_agency_road_def
  example_agency_spur_def example_clipped_def example_erased_def example_preprocessed_def

subsection \<open>C1: the priority invariant of the exact-duplicate removal\<close>

text \<open>
  Claim C1. When lines 125-135 return: no trail left in
  \<^verbatim>\<open>AOI_Clp_Trails_RoadsErased\<close> shares a piece with any survey road of
  \<^verbatim>\<open>AOIClp_RoadSegment\<close>, and the survey roads are what they were before; no
  agency road left in \<^verbatim>\<open>USFS_Roads_USGS_Erased\<close> shares a piece with any
  feature of the merged survey collection \<^verbatim>\<open>USGS_TrailsRoads_Mrg\<close>, and that
  collection is still exactly what the merge of line 130 made of the roads and
  the remaining trails.
\<close>

theorem priority_invariant:
  assumes "run (delete_exact_duplicates env) s = Inr s'"
  shows "\<exists>H L' M A'.
     datasets s (Workspace ''AOIClp_RoadSegment'') = Some H \<and>
     datasets s' (Workspace ''AOIClp_RoadSegment'') = Some H \<and>
     datasets s' (Workspace ''AOI_Clp_Trails_RoadsErased'') = Some L' \<and>
     (\<forall>g \<in> set L'. \<forall>f \<in> set H. shape g \<inter> shape f = {}) \<and>
     datasets s' (Workspace ''USGS_TrailsRoads_Mrg'') = Some M \<and>
     M = map (\<lambda>f. (blank (shape f))\<lparr>permanent_identifier := permanent_identifier f\<rparr>) H
           @ map (\<lambda>f. blank (shape f)) L' \<and>
     datasets s' (Workspace ''USFS_Roads_USGS_Erased'') = Some A' \<and>
     (\<forall>g \<in> set A'. \<forall>f \<in> set M. shape g \<inter> shape f = {})"
proof -
  from assms obtain H T F where
    "datasets s (Workspace ''AOIClp_RoadSegment'') = Some H"
    "datasets s' (Workspace ''AOIClp_RoadSegment'') = Some H"
    "datasets s' (Workspace ''AOI_Clp_Trails_RoadsErased'') =
       Some (erase_features (shapes (intersect_features H T)) T)"
    "datasets s' (Workspace ''USGS_TrailsRoads_Mrg'') =
       Some (map (\<lambda>f. (blank (shape f))\<lparr>permanent_identifier := permanent_identifier f\<rparr>) H
             @ map (\<lambda>f. blank (shape f)) (erase_features (shapes (intersect_features H T)) T))"
    "datasets s' (Workspace ''USFS_Roads_USGS_Erased'') =
       Some (erase_features (shapes (intersect_features
               (map (\<lambda>f. (blank (shape f))\<lparr>permanent_identifier := permanent_identifier f\<rparr>) H
                @ map (\<lambda>f. blank (shape f)) (erase_features (shapes (intersect_features H T)) T)) F)) F)"
    by (rule delete_exact_duplicates_Inr)
  then show ?thesis
    using erase_intersect_disjoint by blast
qed

theorem priority_invariant_witness:
  "dataset_after (delete_exact_duplicates example_env) example_clipped
       (Workspace ''AOIClp_RoadSegment'') = Some [example_road] \<and>
   dataset_after (delete_exact_duplicates example_env) example_clipped
       (Workspace ''AOI_Clp_Trails_RoadsErased'') = Some [example_trail\<lparr>shape := {2}\<rparr>] \<and>
   dataset_after (delete_exact_duplicates example_env) example_clipped
       (Workspace ''USFS_Roads_USGS_Erased'') =
       Some [example_agency_road\<lparr>shape := {5, 6}\<rparr>, example_agency_spur\<lparr>shape := {7}\<rparr>]"
proof -
  have ev: ?thesis
    by (simp add: dataset_after_def delete_exact_duplicates_def tool_defs example_defs)
  then obtain s' where r: "run (delete_exact_duplicates example_env) example_clipped = Inr s'"
    by (auto simp: dataset_after_def split: sum.splits)
  from priority_invariant [OF r] ev show ?thesis by blast
qed

subsection \<open>C2: the widths\<close>

text \<open>
  Claim C2 says that a null classification never produces a null Width.
  \<^verbatim>\<open>Reclass(tnmfrc)\<close> returns \<^verbatim>\<open>None\<close> for a null \<^verbatim>\<open>tnmfrc\<close>: a survey road with
  no functional class reaches line 200 and comes out with a null Width.
\<close>

theorem null_tnmfrc_null_Width_counterexample:
  "Reclass_tnmfrc None = None \<and>
   map_option (map Width)
     (dataset_after (attribute_road_width example_env)
        (put (Workspace ''AOIClp_RoadSegment'') [blank {1}] example_preprocessed)
        (Workspace ''AOIClp_USGS_Road_TNMFRC_Diss'')) = Some [None]"
  by (simp add: dataset_after_def attribute_road_width_def tool_defs example_defs
      Reclass_tnmfrc_def Reclass_LaneWidth_def rcls_def py_str_def isdigit_def)

text \<open>
  Claim C2 as amended. When lines 198-265 return, each of the four
  collections that go into the merge carries a Width on every feature: the
  rails 8, the trails 1.5 or 0.5, the agency roads a non-negative number, the
  survey roads the value of \<^verbatim>\<open>Reclass(tnmfrc)\<close>, which is a non-negative number
  when \<^verbatim>\<open>tnmfrc\<close> is not null and null when it is.
\<close>

theorem width_totality_amended:
  assumes "run (attribute_road_width env @ attribute_rail_trail_width env) s = Inr s'"
  shows "\<exists>roads agency rails trails.
     datasets s' (Workspace ''AOIClp_USGS_Road_TNMFRC_Diss'') = Some roads \<and>
     datasets s' (Workspace ''USFS_Roads_Diss_ALL'') = Some agency \<and>
     datasets s' (Workspace ''AOIClp_Rail_Diss'') = Some rails \<and>
     datasets s' (Workspace ''AOI_Clp_Trails_Diss'') = Some trails \<and>
     (\<forall>f \<in> set roads. Width f = Reclass_tnmfrc (tnmfrc f) \<and>
        (tnmfrc f = None \<longrightarrow> Width f = None) \<and>
        (tnmfrc f \<noteq> None \<longrightarrow> (\<exists>w. Width f = Some w \<and> 0 \<le> w))) \<and>
     (\<forall>f \<in> set agency. \<exists>w. Width f = Some w \<and> 0 \<le> w) \<and>
     (\<forall>f \<in> set rails. Width f = Some 8) \<and>
     (\<forall>f \<in> set trails. Width f = Some 1.5 \<or> Width f = Some 0.5)"
proof -
  from assms obtain s1 where 1: "run (attribute_road_width env) s = Inr s1"
    and 2: "run (attribute_rail_trail_width env) s1 = Inr s'"
    using run_append_Inr [of "attribute_road_width env" "attribute_rail_trail_width env" s s'] by blast
  from 1 obtain R U where
    r1: "datasets s1 (Workspace ''AOIClp_USGS_Road_TNMFRC_Diss'') =
       Some (map (\<lambda>f. f\<lparr>Width := Reclass_tnmfrc (tnmfrc f)\<rparr>)
              (dissolve_features tnmfrc (\<lambda>k f. f\<lparr>tnmfrc := k\<rparr>) R))" and
    a1: "datasets s1 (Workspace ''USFS_Roads_Diss_ALL'') =
       Some (map (\<lambda>f. f\<lparr>Width := Reclass_LaneWidth (LaneWidth f)\<rparr>)
              (dissolve_features LaneWidth (\<lambda>k f. f\<lparr>LaneWidth := k\<rparr>)
                (map (\<lambda>f. f\<lparr>LaneWidth := rcls (LANES f)\<rparr>) U)))"
    by (rule attribute_road_width_Inr)
  have "datasets s' (Workspace ''AOIClp_USGS_Road_TNMFRC_Diss'')
      = datasets s1 (Workspace ''AOIClp_USGS_Road_TNMFRC_Diss'')"
    by (rule writes_withinD [OF writes_within_attribute_rail_trail_width 2]) simp
  with r1 have r: "datasets s' (Workspace ''AOIClp_USGS_Road_TNMFRC_Diss'') =
       Some (map (\<lambda>f. f\<lparr>Width := Reclass_tnmfrc (tnmfrc f)\<rparr>)
              (dissolve_features tnmfrc (\<lambda>k f. f\<lparr>tnmfrc := k\<rparr>) R))"
    by simp
  have "datasets s' (Workspace ''USFS_Roads_Diss_ALL'') = datasets s1 (Workspace ''USFS_Roads_Diss_ALL'')"
    by (rule writes_withinD [OF writes_within_attribute_rail_trail_width 2]) simp
  with a1 have a: "datasets s' (Workspace ''USFS_Roads_Diss_ALL'') =
       Some (map (\<lambda>f. f\<lparr>Width := Reclass_LaneWidth (LaneWidth f)\<rparr>)
              (dissolve_features LaneWidth (\<lambda>k f. f\<lparr>LaneWidth := k\<rparr>)
                (map (\<lambda>f. f\<lparr>LaneWidth := rcls (LANES f)\<rparr>) U)))"
    by simp
  from 2 obtain Ra T where
    l: "datasets s' (Workspace ''AOIClp_Rail_Diss'') =
       Some (dissolve_features Width (\<lambda>k f. f\<lparr>Width := k\<rparr>) (map (\<lambda>f. f\<lparr>Width := Some 8\<rparr>) Ra))" and
    t: "datasets s' (Workspace ''AOI_Clp_Trails_Diss'') =
       Some (dissolve_features Width (\<lambda>k f. f\<lparr>Width := k\<rparr>)
              (map (\<lambda>f. f\<lparr>Width := Reclass_ohvover50inches (ohvover50inches f)\<rparr>)
                (map (\<lambda>f. f\<lparr>Width := None\<rparr>) T)))"
    by (rule attribute_rail_trail_width_Inr)
  have roads: "\<forall>f \<in> set (map (\<lambda>f. f\<lparr>Width := Reclass_tnmfrc (tnmfrc f)\<rparr>)
              (dissolve_features tnmfrc (\<lambda>k f. f\<lparr>tnmfrc := k\<rparr>) R)).
        Width f = Reclass_tnmfrc (tnmfrc f) \<and>
        (tnmfrc f = None \<longrightarrow> Width f = None) \<and>
        (tnmfrc f \<noteq> None \<longrightarrow> (\<exists>w. Width f = Some w \<and> 0 \<le> w))"
    by (rule road_widths)
  have agency: "\<forall>f \<in> set (map (\<lambda>f. f\<lparr>Width := Reclass_LaneWidth (LaneWidth f)\<rparr>)
              (dissolve_features LaneWidth (\<lambda>k f. f\<lparr>LaneWidth := k\<rparr>)
                (map (\<lambda>f. f\<lparr>LaneWidth := rcls (LANES f)\<rparr>) U))).
        \<exists>w. Width f = Some w \<and> 0 \<le> w"
    by (rule agency_widths)
  have rails: "\<forall>f \<in> set (dissolve_features Width (\<lambda>k f. f\<lparr>Width := k\<rparr>)
        (map (\<lambda>f. f\<lparr>Width := Some 8\<rparr>) Ra)). Width f = Some 8"
    by (rule rail_widths)
  have trails: "\<forall>f \<in> set (dissolve_features Width (\<lambda>k f. f\<lparr>Width := k\<rparr>)
              (map (\<lambda>f. f\<lparr>Width := Reclass_ohvover50inches (ohvover50inches f)\<rparr>)
                (map (\<lambda>f. f\<lparr>Width := None\<rparr>) T))).
        Width f = Some 1.5 \<or> Width f = Some 0.5"
    by (rule trail_widths)
  show ?thesis
    by (intro exI conjI) (rule r a l t roads agency rails trails)+
qed

theorem width_totality_amended_witness:
  "\<exists>s'. run (attribute_road_width example_env @ attribute_rail_trail_width example_env)
          example_preprocessed = Inr s' \<and>
     datasets s' (Workspace ''AOIClp_USGS_Road_TNMFRC_Diss'')
       = Some [(blank {1})\<lparr>tnmfrc := Some 2, Width := Some 20\<rparr>] \<and>
     datasets s' (Workspace ''USFS_Roads_Diss_ALL'')
       = Some [(blank {5, 6})\<lparr>LaneWidth := Some ''2'', Width := Some 8\<rparr>] \<and>
     datasets s' (Workspace ''AOIClp_Rail_Diss'') = Some [(blank {0})\<lparr>Width := Some 8\<rparr>] \<and>
     datasets s' (Workspace ''AOI_Clp_Trails_Diss'') = Some [(blank {2})\<lparr>Width := Some 1.5\<rparr>]"
proof -
  have ev: ?thesis
    by (simp add: attribute_road_width_def attribute_rail_trail_width_def
        tool_defs example_defs Reclass_tnmfrc_def Reclass_LaneWidth_def Reclass_ohvover50inches_def
        rcls_def py_str_def isdigit_def)
  then obtain s' where r: "run (attribute_road_width example_env @ attribute_rail_trail_width example_env)
      example_preprocessed = Inr s'"
    by blast
  from width_totality_amended [OF r] ev show ?thesis by blast
qed

subsection \<open>C3: the fragment floor\<close>

text \<open>
  Claim C3. When lines 171-174 return, \<^verbatim>\<open>USFS_Roads_USGS_EraseBuff\<close> holds
  exactly the features it held before whose geodesic length is not below the
  threshold of the run, each with its length recorded in \<^verbatim>\<open>LineLength\<close>; so
  every feature that is left is at least as long as the threshold, and every
  shorter one has been deleted.
\<close>

theorem fragment_floor:
  assumes "run (delete_small_segments env) s = Inr s'"
  shows "\<exists>fs fs'.
     datasets s (Workspace ''USFS_Roads_USGS_EraseBuff'') = Some fs \<and>
     datasets s' (Workspace ''USFS_Roads_USGS_EraseBuff'') = Some fs' \<and>
     fs' = filter (\<lambda>f. \<not> length_geodesic env (shape f) < USFS_RoadLineLengthToDel env)
             (map (\<lambda>f. f\<lparr>LineLength := Some (length_geodesic env (shape f))\<rparr>) fs) \<and>
     (\<forall>f \<in> set fs'. USFS_RoadLineLengthToDel env \<le> length_geodesic env (shape f) \<and>
        LineLength f = Some (length_geodesic env (shape f)))"
proof -
  from assms obtain fs where
    1: "datasets s (Workspace ''USFS_Roads_USGS_EraseBuff'') = Some fs" and
    2: "datasets s' (Workspace ''USFS_Roads_USGS_EraseBuff'') =
       Some (filter (\<lambda>f. \<not> selected (LineLengthLess (USFS_RoadLineLengthToDel env)) f)
              (map (\<lambda>f. f\<lparr>LineLength := Some (length_geodesic env (shape f))\<rparr>)
                (map (\<lambda>f. f\<lparr>LineLength := None\<rparr>) fs)))"
    by (rule delete_small_segments_Inr)
  have 3: "map (\<lambda>f. f\<lparr>LineLength := Some (length_geodesic env (shape f))\<rparr>)
             (map (\<lambda>f. f\<lparr>LineLength := None\<rparr>) fs)
          = map (\<lambda>f. f\<lparr>LineLength := Some (length_geodesic env (shape f))\<rparr>) fs"
    by simp
  have 4: "filter (\<lambda>f. \<not> selected (LineLengthLess (USFS_RoadLineLengthToDel env)) f)
             (map (\<lambda>f. f\<lparr>LineLength := Some (length_geodesic env (shape f))\<rparr>) fs)
        = filter (\<lambda>f. \<not> length_geodesic env (shape f) < USFS_RoadLineLengthToDel env)
             (map (\<lambda>f. f\<lparr>LineLength := Some (length_geodesic env (shape f))\<rparr>) fs)"
    by (rule filter_cong) (auto simp: selected_def)
  from 1 2 show ?thesis
    unfolding 3 4 by auto
qed

theorem fragment_floor_witness:
  "dataset_after (delete_small_segments example_env) example_erased
       (Workspace ''USFS_Roads_USGS_EraseBuff'') =
     Some [example_agency_road\<lparr>shape := {5, 6}, LineLength := Some 120\<rparr>]"
proof -
  have ev: ?thesis
    by (simp add: dataset_after_def delete_small_segments_def tool_defs example_defs)
  then obtain s' where r: "run (delete_small_segments example_env) example_erased = Inr s'"
    by (auto simp: dataset_after_def split: sum.splits)
  from fragment_floor [OF r] ev show ?thesis by blast
qed

subsection \<open>The small run, from start to finish\<close>

lemma example_run:
  "\<exists>s'. main example_env example_state = (Finished, s') \<and>
     datasets s' (OutputGdb ''transprtn_cntmnt_TestFire_20240308_1200'') =
       Some [(blank {5, 6})\<lparr>Width := Some 8, Source := Some ''USFS_Road''\<rparr>,
             (blank {1})\<lparr>Width := Some 20, Source := Some ''USGS_Road''\<rparr>,
             (blank {2})\<lparr>Width := Some 1.5, Source := Some ''USGS_Trail''\<rparr>,
             (blank {0})\<lparr>Width := Some 8, Source := Some ''USGS_Rail''\<rparr>]"
  by (simp add: main_def preprocessing_def delete_by_attribution_def clip_to_AOI_def
      delete_exact_duplicates_def repair_geometry_def remove_similar_geometry_def
      delete_small_segments_def width_attribution_def attribute_road_width_def
      attribute_rail_trail_width_def attribute_source_def merge_containment_def finish_def
      dissolve_to_output_def output_name_def fc_Delete_line159_def fc_Delete_line177_def
      fc_Delete_line276_def tool_defs example_defs Reclass_tnmfrc_def Reclass_LaneWidth_def
      Reclass_ohvover50inches_def rcls_def py_str_def isdigit_def)

subsection \<open>C4: the keys of the merged output\<close>

text \<open>
  Claim C4. When a run finishes, the output feature class is the dissolve of
  the merged collection \<^verbatim>\<open>trans_usgs_usfs_containment\<close> on Source and Width:
  no two of its features have the same pair of Source and Width, it has a
  feature for every pair that occurs in the merged collection, and each of its
  features holds all the geometry the merged collection has under that pair.
\<close>

theorem merge_key_uniqueness:
  assumes "main env s = (Finished, s')"
  shows "\<exists>inc merged out.
     IncName s' = Some inc \<and>
     datasets s' (Workspace ''trans_usgs_usfs_containment'') = Some merged \<and>
     datasets s' (OutputGdb (output_name env inc)) = Some out \<and>
     distinct (map (\<lambda>f. (Source f, Width f)) out) \<and>
     set (map (\<lambda>f. (Source f, Width f)) out) = set (map (\<lambda>f. (Source f, Width f)) merged) \<and>
     (\<forall>f \<in> set out.
        shape f = shapes (filter (\<lambda>g. (Source g, Width g) = (Source f, Width f)) merged))"
proof -
  let ?key = "\<lambda>f::'a feature. (Source f, Width f)"
  let ?with = "\<lambda>k (f::'a feature). f\<lparr>Source := fst k, Width := snd k\<rparr>"
  from assms obtain s1 where "run (width_attribution env) s1 = Inr s'"
    by (rule main_Finished)
  from width_attribution_output [OF this] obtain inc merged where
    i: "IncName s' = Some inc" and
    m: "datasets s' (Workspace ''trans_usgs_usfs_containment'') = Some merged" and
    out: "datasets s' (OutputGdb (output_name env inc)) = Some (dissolve_features ?key ?with merged)"
    by blast
  have k: "?key (?with k b) = k" for k b by simp
  have keys: "map ?key (dissolve_features ?key ?with merged) = remdups (map ?key merged)"
    by (rule dissolve_features_keys) simp
  have d: "distinct (map ?key (dissolve_features ?key ?with merged))"
    by (simp only: keys distinct_remdups)
  have e: "set (map ?key (dissolve_features ?key ?with merged)) = set (map ?key merged)"
    by (simp only: keys set_remdups)
  have g: "\<forall>f \<in> set (dissolve_features ?key ?with merged).
      shape f = shapes (filter (\<lambda>g. ?key g = ?key f) merged)"
  proof
    fix f assume "f \<in> set (dissolve_features ?key ?with merged)"
    then show "shape f = shapes (filter (\<lambda>g. ?key g = ?key f) merged)"
      by (rule dissolve_features_shape [rotated 2]) simp_all
  qed
  show ?thesis
  proof (intro exI conjI)
    show "IncName s' = Some inc" by (rule i)
    show "datasets s' (Workspace ''trans_usgs_usfs_containment'') = Some merged" by (rule m)
    show "datasets s' (OutputGdb (output_name env inc)) = Some (dissolve_features ?key ?with merged)"
      by (rule out)
    show "distinct (map ?key (dissolve_features ?key ?with merged))" by (rule d)
    show "set (map ?key (dissolve_features ?key ?with merged)) = set (map ?key merged)" by (rule e)
    show "\<forall>f \<in> set (dissolve_features ?key ?with merged).
      shape f = shapes (filter (\<lambda>g. ?key g = ?key f) merged)" by (rule g)
  qed
qed

theorem merge_key_uniqueness_witness:
  "\<exists>s'. main example_env example_state = (Finished, s') \<and>
     map_option (map (\<lambda>f. (Source f, Width f)))
       (datasets s' (OutputGdb ''transprtn_cntmnt_TestFire_20240308_1200'')) =
       Some [(Some ''USFS_Road'', Some 8), (Some ''USGS_Road'', Some 20),
             (Some ''USGS_Trail'', Some 1.5), (Some ''USGS_Rail'', Some 8)]"
proof -
  from example_run obtain s' where r: "main example_env example_state = (Finished, s')"
    and o: "datasets s' (OutputGdb ''transprtn_cntmnt_TestFire_20240308_1200'') =
       Some [(blank {5, 6})\<lparr>Width := Some 8, Source := Some ''USFS_Road''\<rparr>,
             (blank {1})\<lparr>Width := Some 20, Source := Some ''USGS_Road''\<rparr>,
             (blank {2})\<lparr>Width := Some 1.5, Source := Some ''USGS_Trail''\<rparr>,
             (blank {0})\<lparr>Width := Some 8, Source := Some ''USGS_Rail''\<rparr>]"
    by blast
  from o have "map_option (map (\<lambda>f. (Source f, Width f)))
       (datasets s' (OutputGdb ''transprtn_cntmnt_TestFire_20240308_1200'')) =
       Some [(Some ''USFS_Road'', Some 8), (Some ''USGS_Road'', Some 20),
             (Some ''USGS_Trail'', Some 1.5), (Some ''USGS_Rail'', Some 8)]"
    by (simp add: blank_def)
  with merge_key_uniqueness [OF r] r show ?thesis
    by - (rule exI [of _ s'], simp)
qed

subsection \<open>C6: the lane digit of an agency road\<close>

text \<open>
  Claim C6 says that any lane-count text that contains a digit yields its
  first digit. \<open>rcls\<close> looks at the first character only: on the text
  \<^verbatim>\<open>" 2 - DOUBLE LANE"\<close>, whose first digit is 2, it returns \<^verbatim>\<open>None\<close>, and the
  width becomes the default 5 where the digit 2 would have given 8.
\<close>

theorem rcls_misses_later_digit:
  "first_digit_anywhere '' 2 - DOUBLE LANE'' = Some ''2'' \<and>
   rcls (Some '' 2 - DOUBLE LANE'') = None \<and>
   Reclass_LaneWidth (rcls (Some '' 2 - DOUBLE LANE'')) = Some 5 \<and>
   Reclass_LaneWidth (first_digit_anywhere '' 2 - DOUBLE LANE'') = Some 8"
  by (simp add: first_digit_anywhere_def rcls_def py_str_def isdigit_def Reclass_LaneWidth_def)

subsection \<open>C7: what the attribute filter writes\<close>

text \<open>
  Claim C7 says that the filter works on a copy and never modifies its input.
  Lines 110-114 make a layer on the input itself and delete the layer's rows,
  which deletes them from the input: on the small run the ferry route is gone
  from the road input, parameter 3, after the filter.
\<close>

theorem filter_edits_input_counterexample:
  "datasets example_state (UserParam 3) = Some [example_road, example_ferry] \<and>
   dataset_after (delete_by_attribution example_env) example_state (UserParam 3) = Some [example_road] \<and>
   dataset_after (delete_by_attribution example_env) example_state (UserParam 3)
     \<noteq> datasets example_state (UserParam 3)"
  by (simp add: dataset_after_def delete_by_attribution_def tool_defs example_defs)

text \<open>
  Claim C7 as amended. The filter deletes the selected rows from its two
  input collections themselves, the road and the trail parameter, and whether
  it returns or raises it leaves every other collection as it was.
\<close>

theorem attribute_filter_frame:
  assumes "run (delete_by_attribution env) s = Inr s' \<or> run (delete_by_attribution env) s = Inl (e, s')"
  shows "(\<forall>d. d \<noteq> UserParam 2 \<longrightarrow> d \<noteq> UserParam 3 \<longrightarrow> datasets s' d = datasets s d) \<and>
     (run (delete_by_attribution env) s = Inr s' \<longrightarrow>
        (\<exists>roads trails.
           datasets s (UserParam 3) = Some roads \<and>
           datasets s (UserParam 2) = Some trails \<and>
           datasets s' (UserParam 3) = Some (filter (\<lambda>f. \<not> selected (TnmfrcIn [7, 8]) f) roads) \<and>
           datasets s' (UserParam 2) = Some (filter (\<lambda>f. \<not> selected (TrailtypeLike ''%Water%'') f) trails)))"
proof -
  have "writes_within {UserParam 2, UserParam 3} (delete_by_attribution env)"
    unfolding delete_by_attribution_def
    by (intro writes_within_intros) simp_all
  with assms have "\<forall>d. d \<noteq> UserParam 2 \<longrightarrow> d \<noteq> UserParam 3 \<longrightarrow> datasets s' d = datasets s d"
    unfolding writes_within_def by blast
  moreover have "\<exists>roads trails.
           datasets s (UserParam 3) = Some roads \<and>
           datasets s (UserParam 2) = Some trails \<and>
           datasets s' (UserParam 3) = Some (filter (\<lambda>f. \<not> selected (TnmfrcIn [7, 8]) f) roads) \<and>
           datasets s' (UserParam 2) = Some (filter (\<lambda>f. \<not> selected (TrailtypeLike ''%Water%'') f) trails)"
    if "run (delete_by_attribution env) s = Inr s'"
    using that by (rule delete_by_attribution_Inr) blast
  ultimately show ?thesis by blast
qed

theorem attribute_filter_frame_witness:
  "dataset_after (delete_by_attribution example_env) example_state (UserParam 3) = Some [example_road] \<and>
   dataset_after (delete_by_attribution example_env) example_state (UserParam 2) = Some [example_trail] \<and>
   dataset_after (delete_by_attribution example_env) example_state (UserParam 4)
     = Some [example_agency_road, example_agency_spur]"
proof -
  have ev: ?thesis
    by (simp add: dataset_after_def delete_by_attribution_def tool_defs example_defs)
  then obtain s' where r: "run (delete_by_attribution example_env) example_state = Inr s'"
    by (auto simp: dataset_after_def split: sum.splits)
  then have "run (delete_by_attribution example_env) example_state = Inr s'
      \<or> run (delete_by_attribution example_env) example_state = Inl (NameError 0, s')"
    by simp
  from attribute_filter_frame [OF this] ev show ?thesis by blast
qed

subsection \<open>C8: a failing call aborts the run at the boundary of its phase\<close>



subsection \<open>C9: scenario B\<close>

text \<open>
  Claim C9. When the filter of lines 110-114 returns, no road of the road
  input has code 7 or 8, every road that had code 2 is still there, and no
  trail of the trail input has a type text that contains \<^verbatim>\<open>Water\<close>. When the
  road widths of lines 198-235 have been attributed, every dissolved survey
  road with code 2 has Width 20.
\<close>

theorem scenario_B:
  assumes "run (delete_by_attribution env) s = Inr s'"
    and "run (attribute_road_width env) t = Inr t'"
  shows "\<exists>roads roads' trails' classified.
     datasets s (UserParam 3) = Some roads \<and>
     datasets s' (UserParam 3) = Some roads' \<and>
     datasets s' (UserParam 2) = Some trails' \<and>
     datasets t' (Workspace ''AOIClp_USGS_Road_TNMFRC_Diss'') = Some classified \<and>
     (\<forall>f \<in> set roads'. tnmfrc f \<noteq> Some 7 \<and> tnmfrc f \<noteq> Some 8) \<and>
     (\<forall>f \<in> set roads. tnmfrc f = Some 2 \<longrightarrow> f \<in> set roads') \<and>
     (\<forall>f \<in> set trails'. \<forall>text. trailtype f = Some text \<longrightarrow> \<not> sublist ''Water'' text) \<and>
     (\<forall>f \<in> set classified. tnmfrc f = Some 2 \<longrightarrow> Width f = Some 20)"
proof -
  from assms(1) obtain roads trails where
    1: "datasets s (UserParam 3) = Some roads" and
    2: "datasets s' (UserParam 3) = Some (filter (\<lambda>f. \<not> selected (TnmfrcIn [7, 8]) f) roads)" and
    3: "datasets s' (UserParam 2) = Some (filter (\<lambda>f. \<not> selected (TrailtypeLike ''%Water%'') f) trails)"
    by (rule delete_by_attribution_Inr)
  from assms(2) obtain R where
    4: "datasets t' (Workspace ''AOIClp_USGS_Road_TNMFRC_Diss'') =
       Some (map (\<lambda>f. f\<lparr>Width := Reclass_tnmfrc (tnmfrc f)\<rparr>)
              (dissolve_features tnmfrc (\<lambda>k f. f\<lparr>tnmfrc := k\<rparr>) R))"
    by (rule attribute_road_width_Inr)
  have a: "\<forall>f \<in> set (filter (\<lambda>f. \<not> selected (TnmfrcIn [7, 8]) f) roads).
      tnmfrc f \<noteq> Some 7 \<and> tnmfrc f \<noteq> Some 8"
    by (auto simp: selected_def)
  have b: "\<forall>f \<in> set roads. tnmfrc f = Some 2 \<longrightarrow>
      f \<in> set (filter (\<lambda>f. \<not> selected (TnmfrcIn [7, 8]) f) roads)"
    by (auto simp: selected_def)
  have c: "\<forall>f \<in> set (filter (\<lambda>f. \<not> selected (TrailtypeLike ''%Water%'') f) trails).
      \<forall>text. trailtype f = Some text \<longrightarrow> \<not> sublist ''Water'' text"
    by (auto simp: selected_def sql_like_Water simp del: sql_like.simps)
  have d: "\<forall>f \<in> set (map (\<lambda>f. f\<lparr>Width := Reclass_tnmfrc (tnmfrc f)\<rparr>)
              (dissolve_features tnmfrc (\<lambda>k f. f\<lparr>tnmfrc := k\<rparr>) R)).
      tnmfrc f = Some 2 \<longrightarrow> Width f = Some 20"
    by (auto simp: Reclass_tnmfrc_def)
  from 1 2 3 4 a b c d show ?thesis by blast
qed

theorem scenario_B_witness:
  "\<exists>s' t'. run (delete_by_attribution example_env) example_state = Inr s' \<and>
     run (attribute_road_width example_env) example_preprocessed = Inr t' \<and>
     datasets s' (UserParam 3) = Some [example_road] \<and>
     datasets s' (UserParam 2) = Some [example_trail] \<and>
     datasets t' (Workspace ''AOIClp_USGS_Road_TNMFRC_Diss'')
       = Some [(blank {1})\<lparr>tnmfrc := Some 2, Width := Some 20\<rparr>]"
proof -
  have ev: ?thesis
    by (simp add: delete_by_attribution_def attribute_road_width_def
        tool_defs example_defs Reclass_tnmfrc_def Reclass_LaneWidth_def rcls_def py_str_def isdigit_def)
  then obtain s' t' where r: "run (delete_by_attribution example_env) example_state = Inr s'"
    and r': "run (attribute_road_width example_env) example_preprocessed = Inr t'"
    by blast
  from scenario_B [OF r r'] ev show ?thesis by blast
qed

subsection \<open>C10: the name of the output\<close>

text \<open>
  Claim C10. When a run finishes, the perimeter input had a first row with an
  incident name, and the output feature class is named
  \<^verbatim>\<open>transprtn_cntmnt_\<close>, then that name with every space removed, then an
  underscore and the timestamp of the run; the rows after the first play no
  part. No other feature class of the output geodatabase is written.
\<close>

theorem output_name_from_first_row:
  assumes "main env s = (Finished, s')"
  shows "\<exists>row rest name out.
     datasets s (UserParam 0) = Some (row # rest) \<and>
     attr_IncidentName row = Some name \<and>
     datasets s' (OutputGdb (''transprtn_cntmnt_'' @ filter (\<lambda>c. c \<noteq> CHR '' '') name @ ''_'' @ datetime env))
       = Some out \<and>
     (\<forall>n. n \<noteq> ''transprtn_cntmnt_'' @ filter (\<lambda>c. c \<noteq> CHR '' '') name @ ''_'' @ datetime env \<longrightarrow>
        datasets s' (OutputGdb n) = datasets s (OutputGdb n))"
proof -
  from assms obtain s1 where 1: "run (preprocessing env) s = Inr s1"
    and 2: "run (width_attribution env) s1 = Inr s'"
    by (rule main_Finished)
  from preprocessing_IncName [OF 1] obtain row rest name where
    p: "datasets s (UserParam 0) = Some (row # rest)" "attr_IncidentName row = Some name" and
    i: "IncName s1 = Some (filter (\<lambda>c. c \<noteq> CHR '' '') name)"
    by blast
  from width_attribution_output [OF 2] obtain inc out where
    "IncName s1 = Some inc" and
    o': "datasets s' (OutputGdb (output_name env inc)) = Some out" and
    f': "\<forall>n. n \<noteq> output_name env inc \<longrightarrow> datasets s' (OutputGdb n) = datasets s1 (OutputGdb n)"
    by blast
  with i have inc: "inc = filter (\<lambda>c. c \<noteq> CHR '' '') name" by simp
  have fr: "datasets s1 (OutputGdb n) = datasets s (OutputGdb n)" for n
    using 1 preprocessing_frame [of env s s1 "NameError 0" "OutputGdb n"] by auto
  from o' have o: "datasets s' (OutputGdb (''transprtn_cntmnt_'' @ filter (\<lambda>c. c \<noteq> CHR '' '') name
      @ ''_'' @ datetime env)) = Some out"
    by (simp add: inc output_name_def)
  from f' fr have f: "\<forall>n. n \<noteq> ''transprtn_cntmnt_'' @ filter (\<lambda>c. c \<noteq> CHR '' '') name @ ''_'' @ datetime env \<longrightarrow>
        datasets s' (OutputGdb n) = datasets s (OutputGdb n)"
    by (simp add: inc output_name_def)
  from p o f show ?thesis by blast
qed

theorem output_name_from_first_row_witness:
  "\<exists>s'. main example_env example_state = (Finished, s') \<and>
     datasets example_state (UserParam 0) = Some [example_perimeter] \<and>
     attr_IncidentName example_perimeter = Some ''Test Fire'' \<and>
     datasets s' (OutputGdb ''transprtn_cntmnt_TestFire_20240308_1200'') \<noteq> None"
proof -
  from example_run obtain s' where r: "main example_env example_state = (Finished, s')"
    and "\<exists>out. datasets s' (OutputGdb ''transprtn_cntmnt_TestFire_20240308_1200'') = Some out"
    by blast
  then have o: "datasets s' (OutputGdb ''transprtn_cntmnt_TestFire_20240308_1200'') \<noteq> None"
    by auto
  have "datasets example_state (UserParam 0) = Some [example_perimeter]"
    "attr_IncidentName example_perimeter = Some ''Test Fire''"
    by (simp_all add: example_state_def example_perimeter_def)
  with output_name_from_first_row [OF r] r o show ?thesis
    by - (rule exI [of _ s'], simp)
qed

end
